theory Spec2Isabelle
  imports Main
begin

section \<open>Python values and exceptions\<close>

text \<open>
  The values that cross the boundary between \<^verbatim>\<open>index.py\<close> and its collaborators are
  dynamically typed: settings attributes, the results of CloudManager methods, JSON
  payloads. They are modelled by one datatype, with Python's truth test.
\<close>

datatype pyval =
    PNone
  | PBool bool
  | PInt int
  | PStr string
  | PDict "(string \<times> pyval) list"

fun truthy :: "pyval \<Rightarrow> bool" where
  "truthy PNone = False"
| "truthy (PBool b) = b"
| "truthy (PInt i) = (i \<noteq> 0)"
| "truthy (PStr s) = (s \<noteq> [])"
| "truthy (PDict kvs) = (kvs \<noteq> [])"

text \<open>
  Exceptions are values. \<open>AttributeError\<close> is what a read of a missing module attribute
  raises, \<open>BadRequestKeyError\<close> what \<^verbatim>\<open>request.files['file']\<close> raises without that part,
  \<open>TypeError\<close> what a path operation raises on a value that is not a string, and
  \<open>Raised\<close> stands for any exception coming out of a collaborator.
\<close>

datatype error =
    AttributeError string
  | BadRequestKeyError string
  | TypeError
  | Raised string

section \<open>settings.py\<close>

text \<open>The assignments of the settings module, in source order.\<close>

definition settings_py :: "(string \<times> pyval) list" where
  "settings_py =
     [(''PROJECT_ROOT'', PStr ''.''),
      (''DATABASE'', PStr (''.'' @ ''/database/files.db'')),
      (''STORAGE_PATH'', PStr (''.'' @ ''/uploads'')),
      (''STORAGE_SIZE'', PInt (20 * 2 ^ 20)),
      (''DATACOIN_URL'', PStr ''http://127.0.0.1:11777''),
      (''DATACOIN_USERNAME'', PStr ''datacoinrpc''),
      (''DATACOIN_PASSWORD'', PStr ''secretish-password''),
      (''DATACOIN_START'', PInt 220000),
      (''CLOUDSYNC_WAIT'', PInt 30)]"

text \<open>
  \<^verbatim>\<open>from local_settings import *\<close> binds every public name of the override module (the
  names that do not start with an underscore); \<^verbatim>\<open>except ImportError: pass\<close> leaves the
  module as it is when there is no override. The override is \<open>None\<close> when the import fails.
\<close>

fun public_name :: "string \<Rightarrow> bool" where
  "public_name [] = True"
| "public_name (c # cs) = (c \<noteq> CHR ''_'')"

definition import_star :: "(string \<times> pyval) list \<Rightarrow> (string \<times> pyval) list" where
  "import_star ls = filter (\<lambda>kv. public_name (fst kv)) ls"

definition settings :: "(string \<times> pyval) list option \<Rightarrow> (string \<rightharpoonup> pyval)" where
  "settings local_settings =
     (case local_settings of
        None \<Rightarrow> map_of settings_py
      | Some ls \<Rightarrow> map_of settings_py ++ map_of (import_star ls))"

text \<open>An attribute read \<^verbatim>\<open>settings.NAME\<close>.\<close>

definition module_attr :: "(string \<rightharpoonup> pyval) \<Rightarrow> string \<Rightarrow> error + pyval" where
  "module_attr m name = (case m name of None \<Rightarrow> Inl (AttributeError name) | Some v \<Rightarrow> Inr v)"

section \<open>index.py: requests, responses, collaborators\<close>

type_synonym path = string

record upfile =
  up_filename :: string
  up_content :: string

record request =
  req_files :: "string \<rightharpoonup> upfile"
  req_args :: "string \<rightharpoonup> string"

text \<open>
  A response body is a JSON document (\<^verbatim>\<open>jsonify\<close>), a file sent as an attachment
  (\<^verbatim>\<open>send_file\<close>: the bytes of the file and the attachment name), or a stream of chunks
  (a generator wrapped in \<^verbatim>\<open>Response\<close>), which may stop early with an exception.
\<close>

datatype body =
    Json pyval
  | Attachment string string
  | Stream "string list" "error option"

record response =
  resp_status :: nat
  resp_body :: body
  resp_mimetype :: "string option"
  resp_headers :: "(string \<times> string) list"

text \<open>The methods of the CloudManager and of the Datacoin client that the routes call.\<close>

datatype cm_call =
    Upload path
  | WarmUp string
  | Info string
  | TotalIncoming
  | TotalOutgoing
  | CurrentIncoming
  | CurrentOutgoing
  | Capacity
  | UsedSpace
  | UploadQueueInfo
  | BlockchainQueueInfo
  | SyncStatus
  | Close

datatype coin_call = Balance | Address string

text \<open>
  The modules \<^verbatim>\<open>cloudmanager\<close>, \<^verbatim>\<open>metachains_dtc\<close>, \<^verbatim>\<open>file_encryptor.convergence\<close>,
  \<^verbatim>\<open>werkzeug\<close> and the file system are not part of the sources. They are parameters:
  each call is a function of the outside world \<open>'w\<close> that returns a value or raises, and
  the new world. \<open>'cm\<close> and \<open>'coin\<close> are references to the objects the constructors make.
\<close>

record ('w, 'cm, 'coin) env =
  secure_filename :: "string \<Rightarrow> string"
  file_save :: "upfile \<Rightarrow> path \<Rightarrow> 'w \<Rightarrow> (error + unit) \<times> 'w"
  os_remove :: "path \<Rightarrow> 'w \<Rightarrow> (error + unit) \<times> 'w"
  read_file :: "path \<Rightarrow> 'w \<Rightarrow> error + string"
  encrypt_file_inline :: "path \<Rightarrow> pyval \<Rightarrow> 'w \<Rightarrow> (error + pyval) \<times> 'w"
  decrypt_generator :: "path \<Rightarrow> string \<Rightarrow> 'w \<Rightarrow> string list \<times> error option"
  CloudManager :: "pyval \<Rightarrow> pyval \<Rightarrow> pyval \<Rightarrow> 'w \<Rightarrow> (error + 'cm) \<times> 'w"
  cm_method :: "'cm \<Rightarrow> cm_call \<Rightarrow> 'w \<Rightarrow> (error + pyval) \<times> 'w"
  Datacoin :: "pyval \<Rightarrow> pyval \<Rightarrow> pyval \<Rightarrow> 'w \<Rightarrow> (error + 'coin) \<times> 'w"
  coin_method :: "'coin \<Rightarrow> coin_call \<Rightarrow> 'w \<Rightarrow> (error + pyval) \<times> 'w"

text \<open>Every call to a collaborator is recorded, in order, whether it returns or raises.\<close>

datatype event =
    EvSave path
  | EvEncrypt path pyval
  | EvRemove path
  | EvCloudManager pyval pyval pyval
  | EvCm cm_call
  | EvDatacoin pyval pyval pyval
  | EvCoin coin_call

text \<open>
  The state of one application context: the outside world, the two attributes of
  Flask's \<^verbatim>\<open>g\<close> (\<open>None\<close> when unset), and the calls made so far.
\<close>

record ('w, 'cm, 'coin) ctx =
  world :: 'w
  g_cloud_manager :: "'cm option"
  g_coin :: "'coin option"
  trace :: "event list"

type_synonym ('a, 'w, 'cm, 'coin) prog =
  "('w, 'cm, 'coin) ctx \<Rightarrow> (error + 'a) \<times> ('w, 'cm, 'coin) ctx"

definition ret :: "'a \<Rightarrow> ('a, 'w, 'cm, 'coin) prog" where
  "ret x c = (Inr x, c)"

definition raise :: "error \<Rightarrow> ('a, 'w, 'cm, 'coin) prog" where
  "raise e c = (Inl e, c)"

definition bind ::
  "('a, 'w, 'cm, 'coin) prog \<Rightarrow> ('a \<Rightarrow> ('b, 'w, 'cm, 'coin) prog) \<Rightarrow> ('b, 'w, 'cm, 'coin) prog" where
  "bind m f c = (case m c of (Inl e, c') \<Rightarrow> (Inl e, c') | (Inr x, c') \<Rightarrow> f x c')"

text \<open>
  \<^verbatim>\<open>try: m finally: fin\<close>: \<open>fin\<close> runs whatever \<open>m\<close> did; an exception of \<open>fin\<close>
  replaces the outcome of \<open>m\<close>.
\<close>

definition try_finally ::
  "('a, 'w, 'cm, 'coin) prog \<Rightarrow> (unit, 'w, 'cm, 'coin) prog \<Rightarrow> ('a, 'w, 'cm, 'coin) prog" where
  "try_finally m fin c =
     (case m c of (r, c') \<Rightarrow>
        (case fin c' of (Inl e, c'') \<Rightarrow> (Inl e, c'') | (Inr _, c'') \<Rightarrow> (r, c'')))"

definition call ::
  "event \<Rightarrow> ('w \<Rightarrow> (error + 'a) \<times> 'w) \<Rightarrow> ('a, 'w, 'cm, 'coin) prog" where
  "call ev f c =
     (case f (world c) of (r, w') \<Rightarrow> (r, c\<lparr>world := w', trace := trace c @ [ev]\<rparr>))"

definition attr :: "(string \<rightharpoonup> pyval) \<Rightarrow> string \<Rightarrow> (pyval, 'w, 'cm, 'coin) prog" where
  "attr stg name c = (module_attr stg name, c)"

subsection \<open>Path helpers of the standard library\<close>

definition path_join :: "path \<Rightarrow> path \<Rightarrow> path" where
  "path_join a b =
     (if b \<noteq> [] \<and> hd b = CHR ''/'' then b
      else if a = [] \<or> last a = CHR ''/'' then a @ b
      else a @ ''/'' @ b)"

definition basename :: "path \<Rightarrow> string" where
  "basename p = rev (takeWhile (\<lambda>c. c \<noteq> CHR ''/'') (rev p))"

subsection \<open>Module level\<close>

definition TEMP_FOLDER :: string where
  "TEMP_FOLDER = ''tmp''"

text \<open>\<^verbatim>\<open>app.config['MAX_CONTENT_LENGTH'] = settings.STORAGE_SIZE\<close>, read at import time.\<close>

definition MAX_CONTENT_LENGTH :: "(string \<rightharpoonup> pyval) \<Rightarrow> error + pyval" where
  "MAX_CONTENT_LENGTH stg = module_attr stg ''STORAGE_SIZE''"

definition make_cloudmanager ::
  "(string \<rightharpoonup> pyval) \<Rightarrow> ('w, 'cm, 'coin) env \<Rightarrow> ('cm, 'w, 'cm, 'coin) prog" where
  "make_cloudmanager stg env =
     bind (attr stg ''DATABASE_PATH'') (\<lambda>db.
     bind (attr stg ''STORAGE_PATH'') (\<lambda>sp.
     bind (attr stg ''STORAGE_SIZE'') (\<lambda>sz.
     call (EvCloudManager db sp sz) (CloudManager env db sp sz))))"

definition make_coin ::
  "(string \<rightharpoonup> pyval) \<Rightarrow> ('w, 'cm, 'coin) env \<Rightarrow> ('coin, 'w, 'cm, 'coin) prog" where
  "make_coin stg env =
     bind (attr stg ''DATACOIN_URL'') (\<lambda>url.
     bind (attr stg ''DATACOIN_USERNAME'') (\<lambda>usr.
     bind (attr stg ''DATACOIN_PASSWORD'') (\<lambda>pwd.
     call (EvDatacoin url usr pwd) (Datacoin env url usr pwd))))"

definition get_cloud_manager ::
  "(string \<rightharpoonup> pyval) \<Rightarrow> ('w, 'cm, 'coin) env \<Rightarrow> ('cm, 'w, 'cm, 'coin) prog" where
  "get_cloud_manager stg env c =
     (case g_cloud_manager c of
        None \<Rightarrow>
          bind (make_cloudmanager stg env)
            (\<lambda>cm c'. (Inr cm, c'\<lparr>g_cloud_manager := Some cm\<rparr>)) c
      | Some cm \<Rightarrow> (Inr cm, c))"

definition get_coin ::
  "(string \<rightharpoonup> pyval) \<Rightarrow> ('w, 'cm, 'coin) env \<Rightarrow> ('coin, 'w, 'cm, 'coin) prog" where
  "get_coin stg env c =
     (case g_coin c of
        None \<Rightarrow>
          bind (make_coin stg env)
            (\<lambda>coin c'. (Inr coin, c'\<lparr>g_coin := Some coin\<rparr>)) c
      | Some coin \<Rightarrow> (Inr coin, c))"

text \<open>The teardown hook; its argument, the exception of the request if any, is not read.\<close>

definition close_connection ::
  "(string \<rightharpoonup> pyval) \<Rightarrow> ('w, 'cm, 'coin) env \<Rightarrow> error option \<Rightarrow> (pyval, 'w, 'cm, 'coin) prog" where
  "close_connection stg env exception =
     bind (get_cloud_manager stg env) (\<lambda>cm.
     call (EvCm Close) (cm_method env cm Close))"

subsection \<open>Building responses\<close>

definition jsonify :: "pyval \<Rightarrow> response" where
  "jsonify v =
     \<lparr>resp_status = 200, resp_body = Json v,
      resp_mimetype = Some ''application/json'', resp_headers = []\<rparr>"

definition make_response :: "response \<Rightarrow> nat \<Rightarrow> response" where
  "make_response r code = r\<lparr>resp_status := code\<rparr>"

definition set_header :: "string \<Rightarrow> string \<Rightarrow> response \<Rightarrow> response" where
  "set_header k v r = r\<lparr>resp_headers := resp_headers r @ [(k, v)]\<rparr>"

text \<open>
  \<^verbatim>\<open>send_file(path, attachment_filename=name, as_attachment=True)\<close>: the bytes of the file
  as they are on disk. Flask guesses the mimetype from the name; the guess is not modelled.
\<close>

definition send_file ::
  "('w, 'cm, 'coin) env \<Rightarrow> path \<Rightarrow> string \<Rightarrow> (response, 'w, 'cm, 'coin) prog" where
  "send_file env p name c =
     (case read_file env p (world c) of
        Inl e \<Rightarrow> (Inl e, c)
      | Inr data \<Rightarrow>
          (Inr \<lparr>resp_status = 200, resp_body = Attachment name data,
                resp_mimetype = None, resp_headers = []\<rparr>, c))"

text \<open>
  \<^verbatim>\<open>Response(stream_with_context(decrypt_generator(path, key)), mimetype=..., headers=...)\<close>:
  the body is what the generator yields, in order, until it is exhausted or raises.
\<close>

definition stream_response ::
  "('w, 'cm, 'coin) env \<Rightarrow> path \<Rightarrow> string \<Rightarrow> (response, 'w, 'cm, 'coin) prog" where
  "stream_response env p key c =
     (case decrypt_generator env p key (world c) of
        (chunks, err) \<Rightarrow>
          (Inr \<lparr>resp_status = 200, resp_body = Stream chunks err,
                resp_mimetype = Some ''application/octet-stream'',
                resp_headers =
                  [(''Content-Disposition'', ''attachment;filename='' @ basename p)]\<rparr>, c))"

definition cm_do ::
  "('w, 'cm, 'coin) env \<Rightarrow> 'cm \<Rightarrow> cm_call \<Rightarrow> (pyval, 'w, 'cm, 'coin) prog" where
  "cm_do env cm m = call (EvCm m) (cm_method env cm m)"

definition coin_do ::
  "('w, 'cm, 'coin) env \<Rightarrow> 'coin \<Rightarrow> coin_call \<Rightarrow> (pyval, 'w, 'cm, 'coin) prog" where
  "coin_do env coin m = call (EvCoin m) (coin_method env coin m)"

subsection \<open>The routes\<close>

text \<open>\<^verbatim>\<open>POST /api/upload\<close>\<close>

definition upload ::
  "(string \<rightharpoonup> pyval) \<Rightarrow> ('w, 'cm, 'coin) env \<Rightarrow> request \<Rightarrow> (response, 'w, 'cm, 'coin) prog" where
  "upload stg env req =
     (case req_files req ''file'' of
        None \<Rightarrow> raise (BadRequestKeyError ''file'')
      | Some file \<Rightarrow>
          (let filename = secure_filename env (up_filename file);
               temp_name = path_join TEMP_FOLDER filename
           in bind (call (EvSave temp_name) (file_save env file temp_name)) (\<lambda>_.
              try_finally
                (bind (call (EvEncrypt temp_name PNone)
                         (encrypt_file_inline env temp_name PNone)) (\<lambda>key.
                 bind (get_cloud_manager stg env) (\<lambda>cm.
                 bind (cm_do env cm (Upload temp_name)) (\<lambda>result.
                 ret (set_header ''Access-Control-Allow-Credentials'' ''true''
                       (set_header ''Access-Control-Allow-Origin'' ''http://localhost:8000''
                         (if \<not> truthy result
                          then make_response
                                 (jsonify (PDict [(''error'', PStr ''Upload failed'')])) 500
                          else make_response
                                 (jsonify (PDict [(''filehash'', result), (''key'', key)]))
                                 201)))))))
                (call (EvRemove temp_name) (os_remove env temp_name)))))"

text \<open>\<^verbatim>\<open>GET /api/download/<filehash>\<close>\<close>

definition download ::
  "(string \<rightharpoonup> pyval) \<Rightarrow> ('w, 'cm, 'coin) env \<Rightarrow> request \<Rightarrow> string \<Rightarrow>
     (response, 'w, 'cm, 'coin) prog" where
  "download stg env req filehash =
     bind (get_cloud_manager stg env) (\<lambda>cm.
     (let key = req_args req ''key'' in
      bind (cm_do env cm (WarmUp filehash)) (\<lambda>full_path.
      (case full_path of
         PNone \<Rightarrow>
           ret (make_response (jsonify (PDict [(''error'', PStr ''File not found'')])) 404)
       | PStr p \<Rightarrow>
           (case key of
              None \<Rightarrow> send_file env p (basename p)
            | Some k \<Rightarrow> stream_response env p k)
       | _ \<Rightarrow> raise TypeError))))"

text \<open>\<^verbatim>\<open>GET /api/find/<filehash>\<close>\<close>

definition find_route ::
  "(string \<rightharpoonup> pyval) \<Rightarrow> ('w, 'cm, 'coin) env \<Rightarrow> string \<Rightarrow> (response, 'w, 'cm, 'coin) prog" where
  "find_route stg env filehash =
     bind (get_cloud_manager stg env) (\<lambda>cm.
     bind (cm_do env cm (Info filehash)) (\<lambda>info.
     (case info of
        PNone \<Rightarrow>
          ret (make_response (jsonify (PDict [(''error'', PStr ''File not found'')])) 404)
      | _ \<Rightarrow> ret (jsonify info))))"

text \<open>\<^verbatim>\<open>GET /api/status\<close>: the dictionary is built left to right.\<close>

definition status ::
  "(string \<rightharpoonup> pyval) \<Rightarrow> ('w, 'cm, 'coin) env \<Rightarrow> (response, 'w, 'cm, 'coin) prog" where
  "status stg env =
     bind (get_cloud_manager stg env) (\<lambda>cm.
     bind (get_coin stg env) (\<lambda>coin.
     bind (cm_do env cm TotalIncoming) (\<lambda>ti.
     bind (cm_do env cm TotalOutgoing) (\<lambda>to.
     bind (cm_do env cm CurrentIncoming) (\<lambda>ci.
     bind (cm_do env cm CurrentOutgoing) (\<lambda>co.
     bind (attr stg ''TRANSFER_MAX_INCOMING'') (\<lambda>li.
     bind (attr stg ''TRANSFER_MAX_OUTGOING'') (\<lambda>lo.
     bind (cm_do env cm Capacity) (\<lambda>cap.
     bind (cm_do env cm UsedSpace) (\<lambda>used.
     bind (attr stg ''STORAGE_FILE'') (\<lambda>mfs.
     bind (cm_do env cm UploadQueueInfo) (\<lambda>cq.
     bind (cm_do env cm BlockchainQueueInfo) (\<lambda>bq.
     bind (coin_do env coin Balance) (\<lambda>bal.
     bind (coin_do env coin (Address ''incoming'')) (\<lambda>addr.
     ret (jsonify (PDict
       [(''bandwidth'', PDict
           [(''total'', PDict [(''incoming'', ti), (''outgoing'', to)]),
            (''current'', PDict [(''incoming'', ci), (''outgoing'', co)]),
            (''limits'', PDict [(''incoming'', li), (''outgoing'', lo)])]),
        (''storage'', PDict
           [(''capacity'', cap), (''used'', used), (''max_file_size'', mfs)]),
        (''sync'', PDict [(''cloud_queue'', cq), (''blockchain_queue'', bq)]),
        (''datacoin'', PDict [(''balance'', bal), (''address'', addr)])])))))))))))))))))"

text \<open>\<^verbatim>\<open>GET /api/bandwidth/usage\<close>\<close>

definition bandwidth_usage ::
  "(string \<rightharpoonup> pyval) \<Rightarrow> ('w, 'cm, 'coin) env \<Rightarrow> (response, 'w, 'cm, 'coin) prog" where
  "bandwidth_usage stg env =
     bind (get_cloud_manager stg env) (\<lambda>cm.
     bind (cm_do env cm TotalIncoming) (\<lambda>ti.
     bind (cm_do env cm TotalOutgoing) (\<lambda>to.
     bind (cm_do env cm CurrentIncoming) (\<lambda>ci.
     bind (cm_do env cm CurrentOutgoing) (\<lambda>co.
     ret (jsonify (PDict
       [(''total'', PDict [(''incoming'', ti), (''outgoing'', to)]),
        (''current'', PDict [(''incoming'', ci), (''outgoing'', co)])])))))))"

text \<open>\<^verbatim>\<open>GET /api/bandwidth/limits\<close>\<close>

definition bandwidth_limits ::
  "(string \<rightharpoonup> pyval) \<Rightarrow> ('w, 'cm, 'coin) env \<Rightarrow> (response, 'w, 'cm, 'coin) prog" where
  "bandwidth_limits stg env =
     bind (get_cloud_manager stg env) (\<lambda>cm.
     bind (attr stg ''TRANSFER_MAX_INCOMING'') (\<lambda>li.
     bind (attr stg ''TRANSFER_MAX_OUTGOING'') (\<lambda>lo.
     ret (jsonify (PDict [(''incoming'', li), (''outgoing'', lo)])))))"

text \<open>\<^verbatim>\<open>GET /api/storage/usage\<close>\<close>

definition disk_usage ::
  "(string \<rightharpoonup> pyval) \<Rightarrow> ('w, 'cm, 'coin) env \<Rightarrow> (response, 'w, 'cm, 'coin) prog" where
  "disk_usage stg env =
     bind (get_cloud_manager stg env) (\<lambda>cm.
     bind (cm_do env cm UsedSpace) (\<lambda>used.
     ret (jsonify (PDict [(''usage'', used)]))))"

text \<open>\<^verbatim>\<open>GET /api/storage/capacity\<close>\<close>

definition storage_capacity ::
  "(string \<rightharpoonup> pyval) \<Rightarrow> ('w, 'cm, 'coin) env \<Rightarrow> (response, 'w, 'cm, 'coin) prog" where
  "storage_capacity stg env =
     bind (get_cloud_manager stg env) (\<lambda>cm.
     bind (cm_do env cm Capacity) (\<lambda>cap.
     ret (jsonify (PDict [(''capacity'', cap)]))))"

text \<open>\<^verbatim>\<open>GET /api/storage/size-limit\<close>\<close>

definition storage_filesize_limit ::
  "(string \<rightharpoonup> pyval) \<Rightarrow> (response, 'w, 'cm, 'coin) prog" where
  "storage_filesize_limit stg =
     bind (attr stg ''STORAGE_FILE'') (\<lambda>mfs.
     ret (jsonify (PDict [(''size'', mfs)])))"

text \<open>\<^verbatim>\<open>GET /api/sync/status\<close>\<close>

definition status_sync ::
  "(string \<rightharpoonup> pyval) \<Rightarrow> ('w, 'cm, 'coin) env \<Rightarrow> (response, 'w, 'cm, 'coin) prog" where
  "status_sync stg env =
     bind (get_cloud_manager stg env) (\<lambda>cm.
     bind (cm_do env cm SyncStatus) (\<lambda>st.
     ret (jsonify st)))"

text \<open>\<^verbatim>\<open>GET /api/dtc/balance\<close> and \<^verbatim>\<open>GET /api/dtc/address\<close>\<close>

definition coin_balance ::
  "(string \<rightharpoonup> pyval) \<Rightarrow> ('w, 'cm, 'coin) env \<Rightarrow> (response, 'w, 'cm, 'coin) prog" where
  "coin_balance stg env =
     bind (get_coin stg env) (\<lambda>coin.
     bind (coin_do env coin Balance) (\<lambda>bal.
     ret (jsonify (PDict [(''balance'', bal)]))))"

definition coin_address ::
  "(string \<rightharpoonup> pyval) \<Rightarrow> ('w, 'cm, 'coin) env \<Rightarrow> (response, 'w, 'cm, 'coin) prog" where
  "coin_address stg env =
     bind (get_coin stg env) (\<lambda>coin.
     bind (coin_do env coin (Address ''incoming'')) (\<lambda>addr.
     ret (jsonify (PDict [(''address'', addr)]))))"

subsection \<open>Routing and the life of one request\<close>

datatype route =
    RUpload
  | RDownload string
  | RFind string
  | RStatus
  | RBandwidthUsage
  | RBandwidthLimits
  | RDiskUsage
  | RStorageCapacity
  | RStorageFilesizeLimit
  | RStatusSync
  | RCoinBalance
  | RCoinAddress

fun dispatch ::
  "(string \<rightharpoonup> pyval) \<Rightarrow> ('w, 'cm, 'coin) env \<Rightarrow> request \<Rightarrow> route \<Rightarrow>
     (response, 'w, 'cm, 'coin) prog" where
  "dispatch stg env req RUpload = upload stg env req"
| "dispatch stg env req (RDownload h) = download stg env req h"
| "dispatch stg env req (RFind h) = find_route stg env h"
| "dispatch stg env req RStatus = status stg env"
| "dispatch stg env req RBandwidthUsage = bandwidth_usage stg env"
| "dispatch stg env req RBandwidthLimits = bandwidth_limits stg env"
| "dispatch stg env req RDiskUsage = disk_usage stg env"
| "dispatch stg env req RStorageCapacity = storage_capacity stg env"
| "dispatch stg env req RStorageFilesizeLimit = storage_filesize_limit stg"
| "dispatch stg env req RStatusSync = status_sync stg env"
| "dispatch stg env req RCoinBalance = coin_balance stg env"
| "dispatch stg env req RCoinAddress = coin_address stg env"

text \<open>The routes whose handler calls \<^verbatim>\<open>get_cloud_manager()\<close>.\<close>

fun uses_cloud_manager :: "route \<Rightarrow> bool" where
  "uses_cloud_manager RStorageFilesizeLimit = False"
| "uses_cloud_manager RCoinBalance = False"
| "uses_cloud_manager RCoinAddress = False"
| "uses_cloud_manager _ = True"

text \<open>
  One request: a fresh application context (nothing set on \<^verbatim>\<open>g\<close>), the handler, then the
  teardown hook. The result is the handler's outcome, the hook's outcome and the final
  context.
\<close>

definition fresh_ctx :: "'w \<Rightarrow> ('w, 'cm, 'coin) ctx" where
  "fresh_ctx w = \<lparr>world = w, g_cloud_manager = None, g_coin = None, trace = []\<rparr>"

definition serve ::
  "(string \<rightharpoonup> pyval) \<Rightarrow> ('w, 'cm, 'coin) env \<Rightarrow> request \<Rightarrow> route \<Rightarrow> 'w \<Rightarrow>
     (error + response) \<times> (error + pyval) \<times> ('w, 'cm, 'coin) ctx" where
  "serve stg env req r w =
     (case dispatch stg env req r (fresh_ctx w) of
        (out, c1) \<Rightarrow>
          (case close_connection stg env (case out of Inl e \<Rightarrow> Some e | Inr _ \<Rightarrow> None) c1 of
             (t, c2) \<Rightarrow> (out, t, c2)))"

subsection \<open>The contract of the encryption library\<close>

text \<open>
  \<^verbatim>\<open>file_encryptor.convergence\<close> is not among the sources; section 6 of the specification
  gives its contract: \<^verbatim>\<open>encrypt_file_inline(path, None)\<close> derives the key from the content
  and encrypts in place, and \<^verbatim>\<open>decrypt_generator(path, key)\<close> yields the plaintext as a
  finite sequence of chunks. As a property of the parameters: when a file holds some
  plaintext and is encrypted with no key given, it then holds a ciphertext such that
  decrypting any file with those bytes, with the key that was returned, runs to the end
  and yields chunks that concatenate to the plaintext.
\<close>

definition convergent :: "('w, 'cm, 'coin) env \<Rightarrow> bool" where
  "convergent env \<longleftrightarrow>
     (\<forall>p w k w' plain.
        read_file env p w = Inr plain \<and>
        encrypt_file_inline env p PNone w = (Inr (PStr k), w') \<longrightarrow>
        (\<exists>cipher. read_file env p w' = Inr cipher \<and>
           (\<forall>q w2. read_file env q w2 = Inr cipher \<longrightarrow>
              (\<exists>chunks. decrypt_generator env q k w2 = (chunks, None) \<and>
                         concat chunks = plain))))"

section \<open>A small instance of the collaborators\<close>

text \<open>
  To run the routes on concrete requests the parameters need values. This instance keeps
  the file system as an association list, "encrypts" by reversing the content (the key is
  the letter k followed by the plaintext, and decryption with another key leaves the
  bytes as they are), and has a CloudManager that stores an uploaded file under
  \<^verbatim>\<open>uploads/\<close> and its content as hash.
\<close>

type_synonym demo_world = "(path \<times> string) list"

definition write_file :: "path \<Rightarrow> string \<Rightarrow> demo_world \<Rightarrow> demo_world" where
  "write_file p d w = (p, d) # filter (\<lambda>kv. fst kv \<noteq> p) w"

definition demo_cm :: "unit \<Rightarrow> cm_call \<Rightarrow> demo_world \<Rightarrow> (error + pyval) \<times> demo_world" where
  "demo_cm cm m w =
     (case m of
        Upload p \<Rightarrow>
          (case map_of w p of
             None \<Rightarrow> (Inr (PBool False), w)
           | Some d \<Rightarrow> (Inr (PStr d), write_file (''uploads/'' @ d) d w))
      | WarmUp h \<Rightarrow>
          (case map_of w (''uploads/'' @ h) of
             None \<Rightarrow> (Inr PNone, w)
           | Some d \<Rightarrow> (Inr (PStr (''uploads/'' @ h)), w))
      | _ \<Rightarrow> (Inr (PInt 0), w))"

definition demo_env :: "(demo_world, unit, unit) env" where
  "demo_env =
     \<lparr>secure_filename = filter (\<lambda>ch. ch \<noteq> CHR ''/''),
      file_save = (\<lambda>f p w. (Inr (), write_file p (up_content f) w)),
      os_remove = (\<lambda>p w. (case map_of w p of
                             None \<Rightarrow> (Inl (Raised ''OSError''), w)
                           | Some d \<Rightarrow> (Inr (), filter (\<lambda>kv. fst kv \<noteq> p) w))),
      read_file = (\<lambda>p w. (case map_of w p of
                             None \<Rightarrow> Inl (Raised ''IOError'')
                           | Some d \<Rightarrow> Inr d)),
      encrypt_file_inline = (\<lambda>p k w. (case map_of w p of
                             None \<Rightarrow> (Inl (Raised ''IOError''), w)
                           | Some d \<Rightarrow> (Inr (PStr (''k'' @ d)), write_file p (rev d) w))),
      decrypt_generator = (\<lambda>p k w. (case map_of w p of
                             None \<Rightarrow> ([], Some (Raised ''IOError''))
                           | Some d \<Rightarrow> ([if k = ''k'' @ rev d then rev d else d], None))),
      CloudManager = (\<lambda>db sp sz w. (Inr (), w)),
      cm_method = demo_cm,
      Datacoin = (\<lambda>url usr pwd w. (Inr (), w)),
      coin_method = (\<lambda>coin m w. (Inr (PInt 0), w))\<rparr>"

text \<open>
  The same instance with a CloudManager whose \<^verbatim>\<open>upload\<close> moves the staged file into its
  store: the file is gone from the temporary folder when \<^verbatim>\<open>upload\<close> returns.
\<close>

definition demo_env_moving :: "(demo_world, unit, unit) env" where
  "demo_env_moving =
     demo_env\<lparr>cm_method :=
       (\<lambda>cm m w. (case m of
                     Upload p \<Rightarrow>
                       (case demo_cm cm m w of
                          (r, w') \<Rightarrow> (r, filter (\<lambda>kv. fst kv \<noteq> p) w'))
                   | _ \<Rightarrow> demo_cm cm m w))\<rparr>"

text \<open>Settings with a \<^verbatim>\<open>local_settings\<close> module that supplies the names the routes read.\<close>

definition demo_settings :: "string \<rightharpoonup> pyval" where
  "demo_settings =
     settings (Some [(''DATABASE_PATH'', PStr ''./database/files.db''),
                     (''TRANSFER_MAX_INCOMING'', PInt 1000),
                     (''TRANSFER_MAX_OUTGOING'', PInt 1000),
                     (''STORAGE_FILE'', PInt 500)])"

definition demo_upload_request :: request where
  "demo_upload_request =
     \<lparr>req_files = [''file'' \<mapsto> \<lparr>up_filename = ''a.txt'', up_content = ''abc''\<rparr>],
      req_args = Map.empty\<rparr>"

definition demo_get_request :: "string option \<Rightarrow> request" where
  "demo_get_request key = \<lparr>req_files = Map.empty, req_args = (\<lambda>n. if n = ''key'' then key else None)\<rparr>"

section \<open>The CloudManager, from the specification\<close>

text \<open>
  Modelled from the spec: the module \<^verbatim>\<open>cloudmanager\<close> is imported by \<^verbatim>\<open>index.py\<close> but is
  not among the sources. This section follows sections 3, 4.1, 4.2, 4.4, 4.5 and 7 of the
  specification. Provider calls run one after the other here; the outcome of each call is
  an input (\<open>push_ok\<close>, \<open>reach\<close>), so the model says nothing about timing.
\<close>

type_synonym hash = string
type_synonym provider = nat

text \<open>Modelled from the spec: the provider status of section 3 (FileRecord).\<close>

datatype pstatus = pending | uploading | stored | failed

text \<open>Modelled from the spec: the proof-of-storage status of section 3 (FileRecord).\<close>

datatype chain_state = unsubmitted | submitted | confirmed

text \<open>Modelled from the spec: FileRecord of section 3; the hash is the key of the index.\<close>

record file_record =
  fr_size :: nat
  providerStatus :: "(provider \<times> pstatus) list"
  cachedLocally :: bool
  lastAccess :: nat
  createdAt :: nat
  chainRecordState :: chain_state

text \<open>Modelled from the spec: the error taxonomy of section 7.\<close>

datatype cm_error =
    NotFound
  | CapacityExceeded
  | BandwidthLimitExceeded
  | ProviderUnavailable
  | ChainUnavailable
  | FetchFailed

text \<open>Modelled from the spec: \<open>UploadOutcome\<close> of section 4.4.\<close>

datatype upload_outcome = Stored | Failed

text \<open>Modelled from the spec: a network call to a provider, recorded as section 8 asks.\<close>

datatype net_call = Push provider hash | Fetch provider hash

text \<open>
  Modelled from the spec: the state of the CloudManager: the configuration (capacity,
  storage path, providers, retry limit), the ContentStore (\<open>cache\<close>), the FileIndex
  (\<open>index\<close>), the sync queue, the totals of the BandwidthMeter, a logical clock, what the
  providers hold (\<open>remote\<close>), and the network calls made.
\<close>

record cloud =
  capacity :: nat
  storage_path :: path
  providers :: "provider list"
  max_retries :: nat
  cache :: "(hash \<times> string) list"
  index :: "(hash \<times> file_record) list"
  sync_queue :: "hash list"
  totalIncoming :: nat
  totalOutgoing :: nat
  clock :: nat
  remote :: "((provider \<times> hash) \<times> string) list"
  net_calls :: "net_call list"

text \<open>Modelled from the spec: a manager as constructed, with an empty store and index.\<close>

definition new_cloud :: "path \<Rightarrow> nat \<Rightarrow> provider list \<Rightarrow> nat \<Rightarrow> cloud" where
  "new_cloud sp sz ps retries =
     \<lparr>capacity = sz, storage_path = sp, providers = ps, max_retries = retries,
      cache = [], index = [], sync_queue = [], totalIncoming = 0, totalOutgoing = 0,
      clock = 0, remote = [], net_calls = []\<rparr>"

subsection \<open>ContentStore\<close>

text \<open>Modelled from the spec: \<open>usedSpace()\<close> of section 4.1, the bytes held by the cache.\<close>

definition usedSpace :: "cloud \<Rightarrow> nat" where
  "usedSpace s = sum_list (map (\<lambda>kv. length (snd kv)) (cache s))"


text \<open>Modelled from the spec: \<open>find(hash)\<close> of section 4.2.\<close>

definition find_record :: "cloud \<Rightarrow> hash \<Rightarrow> file_record option" where
  "find_record s h = map_of (index s) h"

text \<open>Modelled from the spec: \<open>upsert(record)\<close> of section 4.2.\<close>

definition upsert :: "hash \<Rightarrow> file_record \<Rightarrow> cloud \<Rightarrow> cloud" where
  "upsert h r s = s\<lparr>index := (h, r) # filter (\<lambda>kv. fst kv \<noteq> h) (index s)\<rparr>"

text \<open>Modelled from the spec: a change of one record of the index, if the record exists.\<close>

definition update_record :: "hash \<Rightarrow> (file_record \<Rightarrow> file_record) \<Rightarrow> cloud \<Rightarrow> cloud" where
  "update_record h f s =
     s\<lparr>index := map (\<lambda>kv. if fst kv = h then (fst kv, f (snd kv)) else kv) (index s)\<rparr>"

text \<open>Modelled from the spec: \<open>markProviderStatus(hash, provider, status)\<close> of section 4.2.\<close>

definition markProviderStatus :: "hash \<Rightarrow> provider \<Rightarrow> pstatus \<Rightarrow> cloud \<Rightarrow> cloud" where
  "markProviderStatus h p st =
     update_record h (\<lambda>r. r\<lparr>providerStatus :=
       (p, st) # filter (\<lambda>ps. fst ps \<noteq> p) (providerStatus r)\<rparr>)"

text \<open>Modelled from the spec: \<open>touchAccess(hash)\<close> of section 4.2, on the logical clock.\<close>

definition touchAccess :: "hash \<Rightarrow> cloud \<Rightarrow> cloud" where
  "touchAccess h s =
     (update_record h (\<lambda>r. r\<lparr>lastAccess := clock s\<rparr>) s)\<lparr>clock := Suc (clock s)\<rparr>"

text \<open>
  Modelled from the spec: section 4.1, an entry may be evicted only when at least one
  provider reports \<open>stored\<close> for it (data that exists nowhere else is never evicted).
\<close>

definition evictable :: "cloud \<Rightarrow> hash \<Rightarrow> bool" where
  "evictable s h =
     (case find_record s h of
        None \<Rightarrow> False
      | Some r \<Rightarrow> list_ex (\<lambda>ps. snd ps = stored) (providerStatus r))"

text \<open>Modelled from the spec: the \<open>lastAccess\<close> of a hash, from the FileIndex.\<close>

definition access_time :: "cloud \<Rightarrow> hash \<Rightarrow> nat" where
  "access_time s h = (case find_record s h of None \<Rightarrow> 0 | Some r \<Rightarrow> lastAccess r)"

text \<open>
  Modelled from the spec: the eviction policy of section 4.1, the least recently accessed
  of the evictable entries.
\<close>

definition victim :: "cloud \<Rightarrow> hash option" where
  "victim s =
     (case filter (evictable s) (map fst (cache s)) of
        [] \<Rightarrow> None
      | e # es \<Rightarrow>
          Some (foldl (\<lambda>b h. if access_time s h < access_time s b then h else b) e es))"

text \<open>Modelled from the spec: the eviction of one entry; its record is no longer cached.\<close>

definition evict :: "hash \<Rightarrow> cloud \<Rightarrow> cloud" where
  "evict h s =
     update_record h (\<lambda>r. r\<lparr>cachedLocally := False\<rparr>)
       (s\<lparr>cache := filter (\<lambda>kv. fst kv \<noteq> h) (cache s)\<rparr>)"

text \<open>
  Modelled from the spec: \<open>evictIfNeeded(incomingSize)\<close> of section 4.1: evict, least
  recently accessed first, until the incoming bytes fit or nothing evictable is left.
\<close>

function evictIfNeeded :: "nat \<Rightarrow> cloud \<Rightarrow> cloud" where
  "evictIfNeeded n s =
     (if usedSpace s + n \<le> capacity s then s
      else (case victim s of
              None \<Rightarrow> s
            | Some h \<Rightarrow> evictIfNeeded n (evict h s)))"
  by pat_completeness auto
termination
proof (relation "measure (\<lambda>(n, s). length (cache s))")
  show "wf (measure (\<lambda>(n, s). length (cache s)))" by simp
next
  fix n :: nat and s :: cloud and h :: hash
  assume v: "victim s = Some h"
  obtain e es where f: "filter (evictable s) (map fst (cache s)) = e # es"
    and h: "h = foldl (\<lambda>b h. if access_time s h < access_time s b then h else b) e es"
    using v by (auto simp: victim_def split: list.splits)
  have fold_in: "foldl (\<lambda>b h. if access_time s h < access_time s b then h else b) a xs
                   \<in> set (a # xs)" for a xs
    by (induction xs arbitrary: a) (auto split: if_splits)
  have "h \<in> set (filter (evictable s) (map fst (cache s)))"
    using fold_in [of e es] f h by simp
  then obtain kv where kv: "kv \<in> set (cache s)" "\<not> fst kv \<noteq> h" by auto
  have "length (filter (\<lambda>kv. fst kv \<noteq> h) (cache s)) < length (cache s)"
    using kv by (rule length_filter_less)
  then show "((n, evict h s), (n, s)) \<in> measure (\<lambda>(n, s). length (cache s))"
    by (simp add: evict_def update_record_def)
qed

declare evictIfNeeded.simps [simp del]

text \<open>
  Modelled from the spec: \<open>put(hash, stream)\<close> of section 4.1: eviction first, then the
  write, or \<open>CapacityExceeded\<close> when the bytes still do not fit. It returns the bytes
  written.
\<close>

definition put :: "hash \<Rightarrow> string \<Rightarrow> cloud \<Rightarrow> (cm_error + nat) \<times> cloud" where
  "put h d s =
     (let s1 = evictIfNeeded (length d) s
      in if usedSpace s1 + length d > capacity s1 then (Inl CapacityExceeded, s1)
         else (Inr (length d),
               s1\<lparr>cache := (h, d) # filter (\<lambda>kv. fst kv \<noteq> h) (cache s1)\<rparr>))"

text \<open>Modelled from the spec: a sequence of \<open>put\<close> and \<open>evictIfNeeded\<close> calls (section 8).\<close>

datatype store_op = Put hash string | EvictIfNeeded nat

text \<open>Modelled from the spec: one call on the store; the result of \<open>put\<close> is dropped.\<close>

fun store_step :: "store_op \<Rightarrow> cloud \<Rightarrow> cloud" where
  "store_step (Put h d) s = snd (put h d s)"
| "store_step (EvictIfNeeded n) s = evictIfNeeded n s"

text \<open>Modelled from the spec: the calls of a sequence, one after the other.\<close>

fun run_store_ops :: "store_op list \<Rightarrow> cloud \<Rightarrow> cloud" where
  "run_store_ops [] s = s"
| "run_store_ops (x # xs) s = run_store_ops xs (store_step x s)"

subsection \<open>BandwidthMeter\<close>

text \<open>Modelled from the spec: \<open>recordIncoming(bytes)\<close> of section 4.3 (total counter).\<close>

definition recordIncoming :: "nat \<Rightarrow> cloud \<Rightarrow> cloud" where
  "recordIncoming n s = s\<lparr>totalIncoming := totalIncoming s + n\<rparr>"

text \<open>Modelled from the spec: \<open>recordOutgoing(bytes)\<close> of section 4.3 (total counter).\<close>

definition recordOutgoing :: "nat \<Rightarrow> cloud \<Rightarrow> cloud" where
  "recordOutgoing n s = s\<lparr>totalOutgoing := totalOutgoing s + n\<rparr>"

subsection \<open>UploadCoordinator\<close>

text \<open>
  Modelled from the spec: the retry loop of section 4.4: attempts \<open>k\<close>, \<open>k + 1\<close>, ... up
  to \<open>n\<close> retries more; the result is the number of the first attempt that succeeds.
\<close>

primrec first_success :: "(nat \<Rightarrow> bool) \<Rightarrow> nat \<Rightarrow> nat \<Rightarrow> nat option" where
  "first_success ok k 0 = (if ok k then Some k else None)"
| "first_success ok k (Suc n) = (if ok k then Some k else first_success ok (Suc k) n)"

text \<open>
  Modelled from the spec: the attempt for one provider (section 4.4): the status becomes
  \<open>uploading\<close>, then \<open>stored\<close> when an attempt succeeds within the retry limit (the
  provider then holds the bytes, and the bytes count as outgoing), or \<open>failed\<close> with a
  SyncQueueItem when the retries are exhausted. \<open>push_ok p k\<close> says whether attempt
  \<open>k\<close> at provider \<open>p\<close> succeeds. Every attempt is a recorded network call.
\<close>

definition upload_to ::
  "(provider \<Rightarrow> nat \<Rightarrow> bool) \<Rightarrow> hash \<Rightarrow> string \<Rightarrow> provider \<Rightarrow> cloud \<Rightarrow> cloud" where
  "upload_to push_ok h d p s =
     (let s1 = markProviderStatus h p uploading s
      in (case first_success (push_ok p) 0 (max_retries s) of
            Some k \<Rightarrow>
              recordOutgoing (length d)
                (markProviderStatus h p stored
                  (s1\<lparr>remote := ((p, h), d) # filter (\<lambda>kv. fst kv \<noteq> (p, h)) (remote s1),
                      net_calls := net_calls s1 @ replicate (Suc k) (Push p h)\<rparr>))
          | None \<Rightarrow>
              (markProviderStatus h p failed s1)
                \<lparr>sync_queue := sync_queue s1 @ [h],
                 net_calls := net_calls s1 @ replicate (Suc (max_retries s)) (Push p h)\<rparr>))"

text \<open>Modelled from the spec: a record reaches \<open>stored\<close> when a provider reports it.\<close>

definition stored_somewhere :: "cloud \<Rightarrow> hash \<Rightarrow> bool" where
  "stored_somewhere s h = evictable s h"

text \<open>
  Modelled from the spec: \<open>upload(hash, encryptedStagingPath)\<close> of section 4.4, on the
  bytes of the staged file. The file is staged in the ContentStore (a full cache with no
  victim surfaces as an upload failure, section 7), the record is created with every
  configured provider \<open>pending\<close>, each provider is attempted, and the outcome is
  \<open>Stored\<close> when at least one provider holds the file and \<open>Failed\<close> when all failed.
\<close>

definition cm_upload ::
  "(provider \<Rightarrow> nat \<Rightarrow> bool) \<Rightarrow> hash \<Rightarrow> string \<Rightarrow> cloud \<Rightarrow> upload_outcome \<times> cloud" where
  "cm_upload push_ok h d s =
     (case put h d s of
        (Inl e, s1) \<Rightarrow> (Failed, s1)
      | (Inr n, s1) \<Rightarrow>
          (let s2 = upsert h
                      \<lparr>fr_size = length d,
                       providerStatus = map (\<lambda>p. (p, pending)) (providers s1),
                       cachedLocally = True, lastAccess = clock s1, createdAt = clock s1,
                       chainRecordState = unsubmitted\<rparr>
                      (s1\<lparr>clock := Suc (clock s1)\<rparr>);
               s3 = fold (upload_to push_ok h d) (providers s2) s2
           in (if stored_somewhere s3 h then Stored else Failed, s3)))"

subsection \<open>DownloadWarmer\<close>

text \<open>Modelled from the spec: the local path of a cache entry, under the storage path.\<close>

definition local_path :: "cloud \<Rightarrow> hash \<Rightarrow> path" where
  "local_path s h = path_join (storage_path s) h"

text \<open>
  Modelled from the spec: the providers to fetch from (section 4.5): those whose status is
  \<open>stored\<close>, in the order of their identifiers. The time of confirmation is not kept,
  so the order is the deterministic fallback the specification names.
\<close>

definition candidates :: "file_record \<Rightarrow> provider list" where
  "candidates r = sort (map fst (filter (\<lambda>ps. snd ps = stored) (providerStatus r)))"

text \<open>
  Modelled from the spec: the fetch of section 4.5: the candidates are tried in order,
  each try is a recorded network call, the first that answers gives the content, and
  the bytes pulled count as incoming. \<open>reach p\<close> says whether provider \<open>p\<close> answers.
\<close>

fun fetch_first ::
  "(provider \<Rightarrow> bool) \<Rightarrow> hash \<Rightarrow> provider list \<Rightarrow> cloud \<Rightarrow> string option \<times> cloud" where
  "fetch_first reach h [] s = (None, s)"
| "fetch_first reach h (p # ps) s =
     (let s1 = s\<lparr>net_calls := net_calls s @ [Fetch p h]\<rparr>
      in (case (if reach p then map_of (remote s) (p, h) else None) of
            Some d \<Rightarrow> (Some d, recordIncoming (length d) s1)
          | None \<Rightarrow> fetch_first reach h ps s1))"

text \<open>
  Modelled from the spec: \<open>warmUp(hash)\<close> of section 4.5: \<open>NotFound\<close> at once when the
  index has no record; the local path when the content is cached; otherwise a fetch from
  the candidates, written through \<open>put\<close>, with \<open>FetchFailed\<close> when no candidate answers.
\<close>

definition warmUp ::
  "(provider \<Rightarrow> bool) \<Rightarrow> hash \<Rightarrow> cloud \<Rightarrow> (cm_error + path) \<times> cloud" where
  "warmUp reach h s =
     (case find_record s h of
        None \<Rightarrow> (Inl NotFound, s)
      | Some r \<Rightarrow>
          if cachedLocally r then (Inr (local_path s h), touchAccess h s)
          else (case fetch_first reach h (candidates r) s of
                  (None, s1) \<Rightarrow> (Inl FetchFailed, s1)
                | (Some d, s1) \<Rightarrow>
                    (case put h d s1 of
                       (Inl e, s2) \<Rightarrow> (Inl e, s2)
                     | (Inr n, s2) \<Rightarrow>
                         (Inr (local_path s2 h),
                          touchAccess h
                            (update_record h (\<lambda>r. r\<lparr>cachedLocally := True\<rparr>) s2)))))"


subsection \<open>What may follow an upload\<close>






subsection \<open>The manager seen from the routes\<close>

text \<open>Modelled from the spec: the names of the errors of section 7.\<close>

fun cm_error_name :: "cm_error \<Rightarrow> string" where
  "cm_error_name NotFound = ''NotFound''"
| "cm_error_name CapacityExceeded = ''CapacityExceeded''"
| "cm_error_name BandwidthLimitExceeded = ''BandwidthLimitExceeded''"
| "cm_error_name ProviderUnavailable = ''ProviderUnavailable''"
| "cm_error_name ChainUnavailable = ''ChainUnavailable''"
| "cm_error_name FetchFailed = ''FetchFailed''"

text \<open>
  Modelled from the spec: what \<^verbatim>\<open>cm.warm_up(filehash)\<close> hands to \<^verbatim>\<open>download\<close> for each
  outcome of \<open>warmUp\<close>. The local path is a string; \<open>NotFound\<close> is \<^verbatim>\<open>None\<close>, the value
  the route tests for; the terminal errors of section 7 propagate to the caller, as
  exceptions.
\<close>

definition warm_up_result :: "cm_error + path \<Rightarrow> error + pyval" where
  "warm_up_result r =
     (case r of
        Inr p \<Rightarrow> Inr (PStr p)
      | Inl NotFound \<Rightarrow> Inr PNone
      | Inl e \<Rightarrow> Inl (Raised (cm_error_name e)))"

subsection \<open>A small manager\<close>

text \<open>
  Modelled from the spec: a manager with room for five bytes, three providers and one
  retry; the state after \<^verbatim>\<open>abc\<close> was uploaded with only provider 2 answering; and the
  state after a second upload, of four bytes, has pushed the first file out of the cache.
\<close>

definition demo_cloud :: cloud where
  "demo_cloud = new_cloud ''./uploads'' 5 [1, 2, 3] 1"

definition demo_cloud_one :: cloud where
  "demo_cloud_one = snd (cm_upload (\<lambda>p k. p = 2) ''h1'' ''abc'' demo_cloud)"

definition demo_cloud_two :: cloud where
  "demo_cloud_two = snd (cm_upload (\<lambda>p k. p = 1) ''h2'' ''defg'' demo_cloud_one)"

text \<open>
  Modelled from the spec: the small instance of the collaborators with a manager whose
  \<^verbatim>\<open>warm_up\<close> answers as \<open>warmUp\<close> does on a given state.
\<close>

definition demo_env_warm ::
  "(provider \<Rightarrow> bool) \<Rightarrow> cloud \<Rightarrow> (demo_world, unit, unit) env" where
  "demo_env_warm reach s =
     demo_env\<lparr>cm_method :=
       (\<lambda>cm m w. (case m of
                     WarmUp h \<Rightarrow> (warm_up_result (fst (warmUp reach h s)), w)
                   | _ \<Rightarrow> demo_cm cm m w))\<rparr>"

section \<open>Properties of the routes\<close>

subsection \<open>Basic facts\<close>

lemma bind_Inl: "m c = (Inl e, c') \<Longrightarrow> bind m f c = (Inl e, c')"
  by (simp add: bind_def)

lemma call_keeps_g:
  "call ev f c = (r, c') \<Longrightarrow> g_cloud_manager c' = g_cloud_manager c \<and> g_coin c' = g_coin c"
  by (auto simp: call_def split: prod.splits)

lemma call_trace: "call ev f c = (r, c') \<Longrightarrow> trace c' = trace c @ [ev]"
  by (auto simp: call_def split: prod.splits)

lemma attr_shipped_missing:
  "name \<notin> fst ` set settings_py \<Longrightarrow> module_attr (settings None) name = Inl (AttributeError name)"
  by (simp add: module_attr_def settings_def map_of_eq_None_iff [THEN iffD2])

lemma shipped_names:
  "fst ` set settings_py = {''PROJECT_ROOT'', ''DATABASE'', ''STORAGE_PATH'', ''STORAGE_SIZE'',
     ''DATACOIN_URL'', ''DATACOIN_USERNAME'', ''DATACOIN_PASSWORD'', ''DATACOIN_START'',
     ''CLOUDSYNC_WAIT''}"
  by (simp add: settings_py_def)

lemma make_cloudmanager_shipped:
  "make_cloudmanager (settings None) env c = (Inl (AttributeError ''DATABASE_PATH''), c)"
  by (simp add: make_cloudmanager_def bind_def attr_def attr_shipped_missing shipped_names)

lemma get_cloud_manager_shipped:
  "g_cloud_manager c = None \<Longrightarrow>
     get_cloud_manager (settings None) env c = (Inl (AttributeError ''DATABASE_PATH''), c)"
  by (simp add: get_cloud_manager_def bind_def make_cloudmanager_shipped)

lemma upload_shipped:
  assumes "g_cloud_manager c = None"
  shows "\<exists>e. fst (upload (settings None) env req c) = Inl e"
proof (cases "req_files req ''file''")
  case None
  then show ?thesis by (simp add: upload_def raise_def)
next
  case (Some f)
  define t where "t = path_join TEMP_FOLDER (secure_filename env (up_filename f))"
  obtain r1 c1 where s: "call (EvSave t) (file_save env f t) c = (r1, c1)"
    by (cases "call (EvSave t) (file_save env f t) c")
  have g1: "g_cloud_manager c1 = None" using call_keeps_g[OF s] assms by simp
  show ?thesis
  proof (cases r1)
    case (Inl e)
    then show ?thesis using Some s by (simp add: upload_def Let_def bind_def t_def)
  next
    case (Inr u)
    obtain r2 c2 where e: "call (EvEncrypt t PNone) (encrypt_file_inline env t PNone) c1 = (r2, c2)"
      by (cases "call (EvEncrypt t PNone) (encrypt_file_inline env t PNone) c1")
    have g2: "g_cloud_manager c2 = None" using call_keeps_g[OF e] g1 by simp
    show ?thesis using Some s Inr e get_cloud_manager_shipped[OF g2, of env]
      by (cases r2; cases "call (EvRemove t) (os_remove env t) c2")
         (auto simp: upload_def Let_def bind_def t_def try_finally_def split: sum.splits prod.splits)
  qed
qed

lemma others_shipped:
  assumes "g_cloud_manager c = None" "uses_cloud_manager r" "r \<noteq> RUpload"
  shows "dispatch (settings None) env req r c = (Inl (AttributeError ''DATABASE_PATH''), c)"
  using assms get_cloud_manager_shipped[OF assms(1), of env]
  by (cases r) (simp_all add: download_def find_route_def status_def bandwidth_usage_def
      bandwidth_limits_def disk_usage_def storage_capacity_def status_sync_def bind_Inl)

subsection \<open>The settings as shipped\<close>

text \<open>
  Claim C3. With the settings module as shipped and no \<^verbatim>\<open>local_settings\<close> override, every
  request handler that constructs the CloudManager fails before it produces a response:
  \<^verbatim>\<open>make_cloudmanager\<close> reads \<^verbatim>\<open>settings.DATABASE_PATH\<close>, the module defines only
  \<^verbatim>\<open>DATABASE\<close>, and the read raises \<^verbatim>\<open>AttributeError\<close>. The names
  \<^verbatim>\<open>TRANSFER_MAX_INCOMING\<close>, \<^verbatim>\<open>TRANSFER_MAX_OUTGOING\<close> and \<^verbatim>\<open>STORAGE_FILE\<close>, which the
  status route reads, are not defined either. The context is one in which no manager has
  been made yet, as at the start of every request.
\<close>

theorem shipped_settings_fail:
  assumes "g_cloud_manager c = None" and "uses_cloud_manager r"
  shows "make_cloudmanager (settings None) env c = (Inl (AttributeError ''DATABASE_PATH''), c)
       \<and> (\<exists>e. fst (dispatch (settings None) env req r c) = Inl e)
       \<and> (r \<noteq> RUpload \<longrightarrow>
            dispatch (settings None) env req r c = (Inl (AttributeError ''DATABASE_PATH''), c))
       \<and> module_attr (settings None) ''DATABASE'' = Inr (PStr ''./database/files.db'')
       \<and> module_attr (settings None) ''TRANSFER_MAX_INCOMING''
           = Inl (AttributeError ''TRANSFER_MAX_INCOMING'')
       \<and> module_attr (settings None) ''TRANSFER_MAX_OUTGOING''
           = Inl (AttributeError ''TRANSFER_MAX_OUTGOING'')
       \<and> module_attr (settings None) ''STORAGE_FILE'' = Inl (AttributeError ''STORAGE_FILE'')"
proof -
  have fails: "\<exists>e. fst (dispatch (settings None) env req r c) = Inl e"
  proof (cases "r = RUpload")
    case True
    then show ?thesis using upload_shipped[OF assms(1)] by simp
  next
    case False
    then show ?thesis using others_shipped[OF assms False] by simp
  qed
  have db: "module_attr (settings None) ''DATABASE'' = Inr (PStr ''./database/files.db'')"
    by (simp add: module_attr_def settings_def settings_py_def)
  show ?thesis
    using fails db others_shipped[OF assms]
    by (simp add: make_cloudmanager_shipped attr_shipped_missing shipped_names)
qed

theorem shipped_settings_fail_witness:
  "g_cloud_manager (fresh_ctx [] :: (demo_world, unit, unit) ctx) = None
   \<and> uses_cloud_manager RStatus
   \<and> dispatch (settings None) demo_env (demo_get_request None) RStatus (fresh_ctx [])
       = (Inl (AttributeError ''DATABASE_PATH''), fresh_ctx [])
   \<and> fst (serve (settings None) demo_env demo_upload_request RUpload [])
       = Inl (AttributeError ''DATABASE_PATH'')"
proof -
  have u: "fst (serve (settings None) demo_env demo_upload_request RUpload [])
             = Inl (AttributeError ''DATABASE_PATH'')"
    by (simp add: serve_def fresh_ctx_def upload_def demo_upload_request_def demo_env_def
        TEMP_FOLDER_def path_join_def bind_def call_def try_finally_def
        get_cloud_manager_def make_cloudmanager_shipped write_file_def
        close_connection_def Let_def split: prod.splits)
  show ?thesis
    using shipped_settings_fail [of "fresh_ctx [] :: (demo_world, unit, unit) ctx" RStatus
        demo_env "demo_get_request None"] u
    by (simp add: fresh_ctx_def)
qed

subsection \<open>Running the small instance\<close>

lemma demo_attrs:
  "module_attr demo_settings ''DATABASE_PATH'' = Inr (PStr ''./database/files.db'')"
  "module_attr demo_settings ''STORAGE_PATH'' = Inr (PStr ''./uploads'')"
  "module_attr demo_settings ''STORAGE_SIZE'' = Inr (PInt 20971520)"
  "module_attr demo_settings ''DATACOIN_URL'' = Inr (PStr ''http://127.0.0.1:11777'')"
  "module_attr demo_settings ''DATACOIN_USERNAME'' = Inr (PStr ''datacoinrpc'')"
  "module_attr demo_settings ''DATACOIN_PASSWORD'' = Inr (PStr ''secretish-password'')"
  by (simp_all add: module_attr_def demo_settings_def settings_def settings_py_def import_star_def)

lemmas run_defs = upload_def download_def demo_upload_request_def demo_get_request_def demo_env_def
    TEMP_FOLDER_def path_join_def basename_def bind_def call_def try_finally_def
    get_cloud_manager_def get_coin_def make_coin_def coin_do_def coin_balance_def
    make_cloudmanager_def attr_def demo_attrs write_file_def demo_cm_def cm_do_def ret_def
    set_header_def make_response_def jsonify_def close_connection_def Let_def fresh_ctx_def
    send_file_def stream_response_def serve_def

lemma make_cloudmanager_trace:
  "make_cloudmanager stg env c = (Inr cm, c1) \<Longrightarrow>
     \<exists>db sp sz. trace c1 = trace c @ [EvCloudManager db sp sz] \<and>
       g_cloud_manager c1 = g_cloud_manager c"
  by (auto simp: make_cloudmanager_def bind_def attr_def call_def
      split: sum.splits prod.splits)

lemma make_cloudmanager_Inl_trace:
  "make_cloudmanager stg env c = (Inl e, c1) \<Longrightarrow>
     trace c1 = trace c \<or> (\<exists>db sp sz. trace c1 = trace c @ [EvCloudManager db sp sz])"
  by (auto simp: make_cloudmanager_def bind_def attr_def call_def
      split: sum.splits prod.splits)

lemma get_cloud_manager_trace:
  "get_cloud_manager stg env c = (r, c1) \<Longrightarrow>
     trace c1 = trace c \<or> (\<exists>db sp sz. trace c1 = trace c @ [EvCloudManager db sp sz])"
  by (cases r)
     (auto simp: get_cloud_manager_def bind_def split: option.splits sum.splits prod.splits
        dest: make_cloudmanager_trace make_cloudmanager_Inl_trace)

subsection \<open>The upload route\<close>

text \<open>
  Claim C4, as the code has it. In a run of the upload route in which
  \<^verbatim>\<open>CloudManager.upload\<close> returns, the outcome is decided by the removal of the staged
  file in the \<^verbatim>\<open>finally\<close> block. When \<^verbatim>\<open>os.remove\<close> returns, the response tells a stored
  file from a failed upload: 201 with the result as \<^verbatim>\<open>filehash\<close> and the key that the
  encryption returned when the result is truthy, 500 with the error \<^verbatim>\<open>Upload failed\<close>
  when it is falsy. When \<^verbatim>\<open>os.remove\<close> raises, the request ends in that exception and
  there is no response, whatever \<^verbatim>\<open>upload\<close> returned. The hypotheses name the steps of
  the handler up to the call of \<^verbatim>\<open>upload\<close>, each returning.
\<close>

theorem upload_outcome:
  assumes f: "req_files req ''file'' = Some f"
      and t: "t = path_join TEMP_FOLDER (secure_filename env (up_filename f))"
      and s: "call (EvSave t) (file_save env f t) c = (Inr u, c1)"
      and e: "call (EvEncrypt t PNone) (encrypt_file_inline env t PNone) c1 = (Inr key, c2)"
      and g: "get_cloud_manager stg env c2 = (Inr cm, c3)"
      and up: "cm_do env cm (Upload t) c3 = (Inr result, c4)"
  shows "upload stg env req c =
           (case call (EvRemove t) (os_remove env t) c4 of
              (Inl x, c5) \<Rightarrow> (Inl x, c5)
            | (Inr u', c5) \<Rightarrow>
                (Inr (if truthy result
                      then \<lparr>resp_status = 201,
                             resp_body = Json (PDict [(''filehash'', result), (''key'', key)]),
                             resp_mimetype = Some ''application/json'',
                             resp_headers =
                               [(''Access-Control-Allow-Origin'', ''http://localhost:8000''),
                                (''Access-Control-Allow-Credentials'', ''true'')]\<rparr>
                      else \<lparr>resp_status = 500,
                             resp_body = Json (PDict [(''error'', PStr ''Upload failed'')]),
                             resp_mimetype = Some ''application/json'',
                             resp_headers =
                               [(''Access-Control-Allow-Origin'', ''http://localhost:8000''),
                                (''Access-Control-Allow-Credentials'', ''true'')]\<rparr>), c5))"
  using f s e g up
  by (simp add: upload_def Let_def t [symmetric] bind_def try_finally_def ret_def
      set_header_def make_response_def jsonify_def split: prod.splits sum.splits)

theorem upload_outcome_witness:
  "fst (upload demo_settings demo_env demo_upload_request (fresh_ctx [])) =
      Inr \<lparr>resp_status = 201,
           resp_body = Json (PDict [(''filehash'', PStr ''cba''), (''key'', PStr ''kabc'')]),
           resp_mimetype = Some ''application/json'',
           resp_headers =
             [(''Access-Control-Allow-Origin'', ''http://localhost:8000''),
              (''Access-Control-Allow-Credentials'', ''true'')]\<rparr>
   \<and> fst (upload demo_settings demo_env_moving demo_upload_request (fresh_ctx []))
       = Inl (Raised ''OSError'')"
proof -
  let ?f = "\<lparr>up_filename = ''a.txt'', up_content = ''abc''\<rparr>"
  let ?c0 = "fresh_ctx [] :: (demo_world, unit, unit) ctx"
  let ?c1 = "?c0\<lparr>world := [(''tmp/a.txt'', ''abc'')], trace := [EvSave ''tmp/a.txt'']\<rparr>"
  let ?c2 = "?c1\<lparr>world := [(''tmp/a.txt'', ''cba'')],
                 trace := [EvSave ''tmp/a.txt'', EvEncrypt ''tmp/a.txt'' PNone]\<rparr>"
  let ?ctor = "EvCloudManager (PStr ''./database/files.db'') (PStr ''./uploads'') (PInt 20971520)"
  let ?c3 = "?c2\<lparr>g_cloud_manager := Some (),
                 trace := [EvSave ''tmp/a.txt'', EvEncrypt ''tmp/a.txt'' PNone, ?ctor]\<rparr>"
  let ?c4 = "?c3\<lparr>world := [(''uploads/cba'', ''cba''), (''tmp/a.txt'', ''cba'')],
                 trace := [EvSave ''tmp/a.txt'', EvEncrypt ''tmp/a.txt'' PNone, ?ctor,
                           EvCm (Upload ''tmp/a.txt'')]\<rparr>"
  let ?m4 = "?c3\<lparr>world := [(''uploads/cba'', ''cba'')],
                 trace := [EvSave ''tmp/a.txt'', EvEncrypt ''tmp/a.txt'' PNone, ?ctor,
                           EvCm (Upload ''tmp/a.txt'')]\<rparr>"
  have f: "req_files demo_upload_request ''file'' = Some ?f"
    by (simp add: demo_upload_request_def)
  have t: "''tmp/a.txt'' = path_join TEMP_FOLDER (secure_filename demo_env (up_filename ?f))"
    by (simp add: run_defs)
  have s: "call (EvSave ''tmp/a.txt'') (file_save demo_env ?f ''tmp/a.txt'') ?c0 = (Inr (), ?c1)"
    by (simp add: run_defs)
  have e: "call (EvEncrypt ''tmp/a.txt'' PNone) (encrypt_file_inline demo_env ''tmp/a.txt'' PNone) ?c1
             = (Inr (PStr ''kabc''), ?c2)"
    by (simp add: run_defs)
  have g: "get_cloud_manager demo_settings demo_env ?c2 = (Inr (), ?c3)"
    by (simp add: run_defs)
  have up: "cm_do demo_env () (Upload ''tmp/a.txt'') ?c3 = (Inr (PStr ''cba''), ?c4)"
    by (simp add: run_defs)
  have rm: "fst (call (EvRemove ''tmp/a.txt'') (os_remove demo_env ''tmp/a.txt'') ?c4) = Inr ()"
    by (simp add: run_defs)
  have mt: "''tmp/a.txt''
              = path_join TEMP_FOLDER (secure_filename demo_env_moving (up_filename ?f))"
    by (simp add: demo_env_moving_def run_defs)
  have ms: "call (EvSave ''tmp/a.txt'') (file_save demo_env_moving ?f ''tmp/a.txt'') ?c0
              = (Inr (), ?c1)"
    by (simp add: demo_env_moving_def run_defs)
  have me: "call (EvEncrypt ''tmp/a.txt'' PNone)
              (encrypt_file_inline demo_env_moving ''tmp/a.txt'' PNone) ?c1
             = (Inr (PStr ''kabc''), ?c2)"
    by (simp add: demo_env_moving_def run_defs)
  have mg: "get_cloud_manager demo_settings demo_env_moving ?c2 = (Inr (), ?c3)"
    by (simp add: demo_env_moving_def run_defs)
  have mup: "cm_do demo_env_moving () (Upload ''tmp/a.txt'') ?c3 = (Inr (PStr ''cba''), ?m4)"
    by (simp add: demo_env_moving_def run_defs)
  have mrm: "fst (call (EvRemove ''tmp/a.txt'') (os_remove demo_env_moving ''tmp/a.txt'') ?m4)
               = Inl (Raised ''OSError'')"
    by (simp add: demo_env_moving_def run_defs)
  show ?thesis
    using upload_outcome [OF f t s e g up] rm upload_outcome [OF f mt ms me mg mup] mrm
    by (auto split: prod.splits sum.splits)
qed

text \<open>
  Claim C4 as stated fails: with a CloudManager that moves the staged file into its store,
  \<^verbatim>\<open>upload\<close> returns a truthy hash, \<^verbatim>\<open>os.remove\<close> then finds no file and raises, and the
  request ends in that exception instead of the 201 response.
\<close>

theorem upload_outcome_counterexample:
  "fst (cm_method demo_env_moving () (Upload ''tmp/a.txt'') [(''tmp/a.txt'', ''cba'')])
     = Inr (PStr ''cba'')
   \<and> truthy (PStr ''cba'')
   \<and> serve demo_settings demo_env_moving demo_upload_request RUpload [] =
       (Inl (Raised ''OSError''), Inr (PInt 0),
        \<lparr>world = [(''uploads/cba'', ''cba'')], g_cloud_manager = Some (), g_coin = None,
         trace = [EvSave ''tmp/a.txt'', EvEncrypt ''tmp/a.txt'' PNone,
                  EvCloudManager (PStr ''./database/files.db'') (PStr ''./uploads'')
                    (PInt 20971520),
                  EvCm (Upload ''tmp/a.txt''), EvRemove ''tmp/a.txt'', EvCm Close]\<rparr>)"
  by (simp add: demo_env_moving_def run_defs)

text \<open>
  Claim C7. In every run of the upload route that invokes \<^verbatim>\<open>CloudManager.upload\<close> on a
  path, the calls of the run are, in this order: the staged file is saved at that path,
  \<^verbatim>\<open>encrypt_file_inline\<close> is called on that path with no key (\<^verbatim>\<open>None\<close>) and returns the key
  it derived, the manager is fetched (constructed now if the context has none), and only
  then \<^verbatim>\<open>upload\<close> is called, followed by the removal of the staged file. No call to the
  CloudManager comes before the encryption.
\<close>

theorem upload_encrypts_before_cm_upload:
  assumes run: "upload stg env req c = (out, c')"
      and ev: "EvCm (Upload p) \<in> set (drop (length (trace c)) (trace c'))"
  shows "\<exists>f pre u key c1 c2 cm c3.
           req_files req ''file'' = Some f
         \<and> p = path_join TEMP_FOLDER (secure_filename env (up_filename f))
         \<and> call (EvSave p) (file_save env f p) c = (Inr u, c1)
         \<and> call (EvEncrypt p PNone) (encrypt_file_inline env p PNone) c1 = (Inr key, c2)
         \<and> get_cloud_manager stg env c2 = (Inr cm, c3)
         \<and> (pre = [] \<or> (\<exists>db sp sz. pre = [EvCloudManager db sp sz]))
         \<and> trace c3 = trace c @ [EvSave p, EvEncrypt p PNone] @ pre
         \<and> trace c' = trace c3 @ [EvCm (Upload p), EvRemove p]"
proof (cases "req_files req ''file''")
  case None
  then show ?thesis using run ev by (simp add: upload_def raise_def)
next
  case (Some f)
  define t where "t = path_join TEMP_FOLDER (secure_filename env (up_filename f))"
  obtain r1 c1 where s: "call (EvSave t) (file_save env f t) c = (r1, c1)"
    by (cases "call (EvSave t) (file_save env f t) c")
  note t1 = call_trace[OF s]
  show ?thesis
  proof (cases r1)
    case (Inl e)
    then show ?thesis using Some s run ev t1
      by (auto simp add: upload_def Let_def bind_def t_def [symmetric])
  next
    case r1: (Inr u)
    obtain r2 c2 where e: "call (EvEncrypt t PNone) (encrypt_file_inline env t PNone) c1 = (r2, c2)"
      by (cases "call (EvEncrypt t PNone) (encrypt_file_inline env t PNone) c1")
    note t2 = call_trace[OF e]
    show ?thesis
    proof (cases r2)
      case (Inl e2)
      obtain x c5 where rm: "call (EvRemove t) (os_remove env t) c2 = (x, c5)"
        by (cases "call (EvRemove t) (os_remove env t) c2")
      have "c' = c5" using Some s r1 e Inl rm run
        by (auto simp add: upload_def Let_def bind_def try_finally_def t_def [symmetric]
            split: sum.splits)
      then show ?thesis using ev t1 t2 call_trace[OF rm] by auto
    next
      case r2: (Inr key)
      obtain r3 c3 where g: "get_cloud_manager stg env c2 = (r3, c3)"
        by (cases "get_cloud_manager stg env c2")
      note t3 = get_cloud_manager_trace[OF g]
      show ?thesis
      proof (cases r3)
        case (Inl e3)
        obtain x c5 where rm: "call (EvRemove t) (os_remove env t) c3 = (x, c5)"
          by (cases "call (EvRemove t) (os_remove env t) c3")
        have "c' = c5" using Some s r1 e r2 g Inl rm run
          by (auto simp add: upload_def Let_def bind_def try_finally_def t_def [symmetric]
              split: sum.splits)
        then show ?thesis using ev t1 t2 t3 call_trace[OF rm] by auto
      next
        case r3: (Inr cm)
        obtain r4 c4 where up: "cm_do env cm (Upload t) c3 = (r4, c4)"
          by (cases "cm_do env cm (Upload t) c3")
        have t4: "trace c4 = trace c3 @ [EvCm (Upload t)]"
          using up by (simp add: cm_do_def call_trace)
        obtain x c5 where rm: "call (EvRemove t) (os_remove env t) c4 = (x, c5)"
          by (cases "call (EvRemove t) (os_remove env t) c4")
        have c': "c' = c5" using Some s r1 e r2 g r3 up rm run
          by (cases r4)
             (auto simp add: upload_def Let_def bind_def try_finally_def ret_def
                t_def [symmetric] split: sum.splits)
        have pt: "p = t" using ev c' t1 t2 t3 t4 call_trace[OF rm] by auto
        obtain pre where pre: "pre = [] \<or> (\<exists>db sp sz. pre = [EvCloudManager db sp sz])"
            "trace c3 = trace c2 @ pre"
          using t3 by auto
        show ?thesis
          using Some s r1 e r2 g r3 pre c' t1 t2 t4 call_trace[OF rm] pt t_def
          by (intro exI[of _ f] exI[of _ pre] exI[of _ u] exI[of _ key] exI[of _ c1]
              exI[of _ c2] exI[of _ cm] exI[of _ c3]) simp
      qed
    qed
  qed
qed

theorem upload_encrypts_before_cm_upload_witness:
  "trace (snd (upload demo_settings demo_env demo_upload_request (fresh_ctx []))) =
     [EvSave ''tmp/a.txt'', EvEncrypt ''tmp/a.txt'' PNone,
      EvCloudManager (PStr ''./database/files.db'') (PStr ''./uploads'') (PInt 20971520),
      EvCm (Upload ''tmp/a.txt''), EvRemove ''tmp/a.txt'']
   \<and> (\<exists>c3 :: (demo_world, unit, unit) ctx.
        trace (snd (upload demo_settings demo_env demo_upload_request (fresh_ctx [])))
          = trace c3 @ [EvCm (Upload ''tmp/a.txt''), EvRemove ''tmp/a.txt''])"
proof -
  let ?run = "upload demo_settings demo_env demo_upload_request
                (fresh_ctx [] :: (demo_world, unit, unit) ctx)"
  have tr: "trace (snd ?run) =
     [EvSave ''tmp/a.txt'', EvEncrypt ''tmp/a.txt'' PNone,
      EvCloudManager (PStr ''./database/files.db'') (PStr ''./uploads'') (PInt 20971520),
      EvCm (Upload ''tmp/a.txt''), EvRemove ''tmp/a.txt'']"
    by (simp add: run_defs)
  have run: "?run = (fst ?run, snd ?run)" by simp
  have ev: "EvCm (Upload ''tmp/a.txt'')
              \<in> set (drop (length (trace (fresh_ctx [] :: (demo_world, unit, unit) ctx)))
                       (trace (snd ?run)))"
    by (simp add: tr) (simp add: fresh_ctx_def)
  from upload_encrypts_before_cm_upload [OF run ev]
  obtain c3 :: "(demo_world, unit, unit) ctx"
    where "trace (snd ?run) = trace c3 @ [EvCm (Upload ''tmp/a.txt''), EvRemove ''tmp/a.txt'']"
    by blast
  then show ?thesis using tr by blast
qed

subsection \<open>Teardown\<close>



subsection \<open>The download route\<close>

text \<open>
  Claim C1, as the code has it. Take an upload that was answered 201 with a hash and a
  key, and a later download of that hash which \<^verbatim>\<open>warm_up\<close> resolves to a local file
  holding the bytes of the staged file as it was encrypted. When the request carries that
  key, the body is the stream of \<^verbatim>\<open>decrypt_generator\<close>, finite and run to its end, and
  its chunks in order are the plaintext of the uploaded file. When the request carries no
  key, the handler sends the stored, still encrypted bytes as they are. The encryption
  library is assumed to keep its contract, and \<^verbatim>\<open>file.save\<close> to write the uploaded
  content.
\<close>

theorem download_round_trip:
  assumes conv: "convergent env"
      and f: "req_files req ''file'' = Some f"
      and t: "t = path_join TEMP_FOLDER (secure_filename env (up_filename f))"
      and s: "call (EvSave t) (file_save env f t) c = (Inr u, c1)"
      and saved: "read_file env t (world c1) = Inr (up_content f)"
      and e: "call (EvEncrypt t PNone) (encrypt_file_inline env t PNone) c1
                = (Inr (PStr k), c2)"
      and g: "get_cloud_manager stg env c2 = (Inr cm, c3)"
      and up: "cm_do env cm (Upload t) c3 = (Inr (PStr h), c4)"
      and h: "h \<noteq> []"
      and rm: "call (EvRemove t) (os_remove env t) c4 = (Inr u', c5)"
      and g': "get_cloud_manager stg env d = (Inr cm', d1)"
      and w: "cm_do env cm' (WarmUp h) d1 = (Inr (PStr q), d2)"
      and held: "read_file env q (world d2) = read_file env t (world c2)"
  shows "upload stg env req c =
           (Inr \<lparr>resp_status = 201,
                 resp_body = Json (PDict [(''filehash'', PStr h), (''key'', PStr k)]),
                 resp_mimetype = Some ''application/json'',
                 resp_headers =
                   [(''Access-Control-Allow-Origin'', ''http://localhost:8000''),
                    (''Access-Control-Allow-Credentials'', ''true'')]\<rparr>, c5)
       \<and> (\<forall>req'. req_args req' ''key'' = Some k \<longrightarrow>
             (\<exists>chunks.
                download stg env req' h d =
                  (Inr \<lparr>resp_status = 200, resp_body = Stream chunks None,
                        resp_mimetype = Some ''application/octet-stream'',
                        resp_headers =
                          [(''Content-Disposition'', ''attachment;filename='' @ basename q)]\<rparr>,
                   d2)
                \<and> concat chunks = up_content f))
       \<and> (\<forall>req'. req_args req' ''key'' = None \<longrightarrow>
             (\<exists>cipher.
                read_file env t (world c2) = Inr cipher
                \<and> download stg env req' h d =
                    (Inr \<lparr>resp_status = 200, resp_body = Attachment (basename q) cipher,
                          resp_mimetype = None, resp_headers = []\<rparr>, d2)))"
proof -
  have enc: "encrypt_file_inline env t PNone (world c1) = (Inr (PStr k), world c2)"
    using e by (auto simp: call_def split: prod.splits)
  obtain cipher where ci: "read_file env t (world c2) = Inr cipher"
    and dec: "\<And>q w2. read_file env q w2 = Inr cipher \<Longrightarrow>
                \<exists>chunks. decrypt_generator env q k w2 = (chunks, None) \<and>
                          concat chunks = up_content f"
    using conv saved enc unfolding convergent_def by blast
  have q: "read_file env q (world d2) = Inr cipher"
    using held ci by simp
  obtain chunks where ch: "decrypt_generator env q k (world d2) = (chunks, None)"
    and pl: "concat chunks = up_content f"
    using dec [OF q] by blast
  have one: "upload stg env req c =
           (Inr \<lparr>resp_status = 201,
                 resp_body = Json (PDict [(''filehash'', PStr h), (''key'', PStr k)]),
                 resp_mimetype = Some ''application/json'',
                 resp_headers =
                   [(''Access-Control-Allow-Origin'', ''http://localhost:8000''),
                    (''Access-Control-Allow-Credentials'', ''true'')]\<rparr>, c5)"
    using f s e g up rm h
    by (simp add: upload_def Let_def t [symmetric] bind_def try_finally_def ret_def
        set_header_def make_response_def jsonify_def)
  have two: "download stg env req' h d =
                  (Inr \<lparr>resp_status = 200, resp_body = Stream chunks None,
                        resp_mimetype = Some ''application/octet-stream'',
                        resp_headers =
                          [(''Content-Disposition'', ''attachment;filename='' @ basename q)]\<rparr>,
                   d2)"
    if "req_args req' ''key'' = Some k" for req'
    using that g' w ch
    by (simp add: download_def bind_def Let_def stream_response_def)
  have three: "download stg env req' h d =
                    (Inr \<lparr>resp_status = 200, resp_body = Attachment (basename q) cipher,
                          resp_mimetype = None, resp_headers = []\<rparr>, d2)"
    if "req_args req' ''key'' = None" for req'
    using that g' w q
    by (simp add: download_def bind_def Let_def send_file_def)
  show ?thesis using one two three pl ci by blast
qed

lemma demo_env_convergent: "convergent demo_env"
proof -
  have w: "map_of (write_file p x w) p = Some x" for p x and w :: demo_world
    by (simp add: write_file_def)
  show ?thesis
    unfolding convergent_def
    by (auto simp: demo_env_def w split: option.splits)
qed

theorem download_round_trip_witness:
  "fst (upload demo_settings demo_env demo_upload_request (fresh_ctx [])) =
      Inr \<lparr>resp_status = 201,
           resp_body = Json (PDict [(''filehash'', PStr ''cba''), (''key'', PStr ''kabc'')]),
           resp_mimetype = Some ''application/json'',
           resp_headers =
             [(''Access-Control-Allow-Origin'', ''http://localhost:8000''),
              (''Access-Control-Allow-Credentials'', ''true'')]\<rparr>
   \<and> fst (download demo_settings demo_env (demo_get_request (Some ''kabc'')) ''cba''
          (fresh_ctx [(''uploads/cba'', ''cba'')]))
     = Inr \<lparr>resp_status = 200, resp_body = Stream [''abc''] None,
            resp_mimetype = Some ''application/octet-stream'',
            resp_headers = [(''Content-Disposition'', ''attachment;filename=cba'')]\<rparr>
   \<and> fst (download demo_settings demo_env (demo_get_request None) ''cba''
          (fresh_ctx [(''uploads/cba'', ''cba'')]))
     = Inr \<lparr>resp_status = 200, resp_body = Attachment ''cba'' ''cba'',
            resp_mimetype = None, resp_headers = []\<rparr>"
proof -
  let ?f = "\<lparr>up_filename = ''a.txt'', up_content = ''abc''\<rparr>"
  let ?c0 = "fresh_ctx [] :: (demo_world, unit, unit) ctx"
  let ?c1 = "?c0\<lparr>world := [(''tmp/a.txt'', ''abc'')], trace := [EvSave ''tmp/a.txt'']\<rparr>"
  let ?c2 = "?c1\<lparr>world := [(''tmp/a.txt'', ''cba'')],
                 trace := [EvSave ''tmp/a.txt'', EvEncrypt ''tmp/a.txt'' PNone]\<rparr>"
  let ?ctor = "EvCloudManager (PStr ''./database/files.db'') (PStr ''./uploads'') (PInt 20971520)"
  let ?c3 = "?c2\<lparr>g_cloud_manager := Some (),
                 trace := [EvSave ''tmp/a.txt'', EvEncrypt ''tmp/a.txt'' PNone, ?ctor]\<rparr>"
  let ?c4 = "?c3\<lparr>world := [(''uploads/cba'', ''cba''), (''tmp/a.txt'', ''cba'')],
                 trace := [EvSave ''tmp/a.txt'', EvEncrypt ''tmp/a.txt'' PNone, ?ctor,
                           EvCm (Upload ''tmp/a.txt'')]\<rparr>"
  let ?c5 = "?c4\<lparr>world := [(''uploads/cba'', ''cba'')],
                 trace := [EvSave ''tmp/a.txt'', EvEncrypt ''tmp/a.txt'' PNone, ?ctor,
                           EvCm (Upload ''tmp/a.txt''), EvRemove ''tmp/a.txt'']\<rparr>"
  let ?d = "fresh_ctx [(''uploads/cba'', ''cba'')] :: (demo_world, unit, unit) ctx"
  let ?d1 = "?d\<lparr>g_cloud_manager := Some (), trace := [?ctor]\<rparr>"
  let ?d2 = "?d1\<lparr>trace := [?ctor, EvCm (WarmUp ''cba'')]\<rparr>"
  have f: "req_files demo_upload_request ''file'' = Some ?f"
    by (simp add: demo_upload_request_def)
  have t: "''tmp/a.txt'' = path_join TEMP_FOLDER (secure_filename demo_env (up_filename ?f))"
    by (simp add: run_defs)
  have s: "call (EvSave ''tmp/a.txt'') (file_save demo_env ?f ''tmp/a.txt'') ?c0 = (Inr (), ?c1)"
    by (simp add: run_defs)
  have saved: "read_file demo_env ''tmp/a.txt'' (world ?c1) = Inr (up_content ?f)"
    by (simp add: run_defs)
  have e: "call (EvEncrypt ''tmp/a.txt'' PNone) (encrypt_file_inline demo_env ''tmp/a.txt'' PNone) ?c1
             = (Inr (PStr ''kabc''), ?c2)"
    by (simp add: run_defs)
  have g: "get_cloud_manager demo_settings demo_env ?c2 = (Inr (), ?c3)"
    by (simp add: run_defs)
  have up: "cm_do demo_env () (Upload ''tmp/a.txt'') ?c3 = (Inr (PStr ''cba''), ?c4)"
    by (simp add: run_defs)
  have h: "''cba'' \<noteq> []" by simp
  have rm: "call (EvRemove ''tmp/a.txt'') (os_remove demo_env ''tmp/a.txt'') ?c4 = (Inr (), ?c5)"
    by (simp add: run_defs)
  have g': "get_cloud_manager demo_settings demo_env ?d = (Inr (), ?d1)"
    by (simp add: run_defs)
  have w: "cm_do demo_env () (WarmUp ''cba'') ?d1 = (Inr (PStr ''uploads/cba''), ?d2)"
    by (simp add: run_defs)
  have held: "read_file demo_env ''uploads/cba'' (world ?d2)
                = read_file demo_env ''tmp/a.txt'' (world ?c2)"
    by (simp add: run_defs)
  have k: "req_args (demo_get_request (Some ''kabc'')) ''key'' = Some ''kabc''"
    by (simp add: demo_get_request_def)
  have n: "req_args (demo_get_request None) ''key'' = None"
    by (simp add: demo_get_request_def)
  have dk: "fst (download demo_settings demo_env (demo_get_request (Some ''kabc'')) ''cba'' ?d)
     = Inr \<lparr>resp_status = 200, resp_body = Stream [''abc''] None,
            resp_mimetype = Some ''application/octet-stream'',
            resp_headers = [(''Content-Disposition'', ''attachment;filename=cba'')]\<rparr>"
    by (simp add: run_defs)
  have dn: "fst (download demo_settings demo_env (demo_get_request None) ''cba'' ?d)
     = Inr \<lparr>resp_status = 200, resp_body = Attachment ''cba'' ''cba'',
            resp_mimetype = None, resp_headers = []\<rparr>"
    by (simp add: run_defs)
  from download_round_trip [OF demo_env_convergent f t s saved e g up h rm g' w held]
  have "fst (upload demo_settings demo_env demo_upload_request ?c0) =
      Inr \<lparr>resp_status = 201,
           resp_body = Json (PDict [(''filehash'', PStr ''cba''), (''key'', PStr ''kabc'')]),
           resp_mimetype = Some ''application/json'',
           resp_headers =
             [(''Access-Control-Allow-Origin'', ''http://localhost:8000''),
              (''Access-Control-Allow-Credentials'', ''true'')]\<rparr>"
    by simp
  then show ?thesis using dk dn by simp
qed

text \<open>
  Claim C1 as stated fails: after an upload of \<^verbatim>\<open>abc\<close> the store holds the encrypted
  artifact, and a download of its hash without a key returns that artifact, not the
  plaintext.
\<close>

theorem download_plaintext_counterexample:
  "world (snd (snd (serve demo_settings demo_env demo_upload_request RUpload [])))
     = [(''uploads/cba'', ''cba'')]
   \<and> fst (serve demo_settings demo_env (demo_get_request None) (RDownload ''cba'')
            [(''uploads/cba'', ''cba'')])
     = Inr \<lparr>resp_status = 200, resp_body = Attachment ''cba'' ''cba'',
            resp_mimetype = None, resp_headers = []\<rparr>
   \<and> up_content (the (req_files demo_upload_request ''file'')) = ''abc''
   \<and> ''cba'' \<noteq> ''abc''"
  by (simp add: run_defs)

section \<open>Properties of the CloudManager of the specification\<close>

subsection \<open>Basic facts\<close>



lemma update_record_fields [simp]:
  "cache (update_record h f s) = cache s"
  "capacity (update_record h f s) = capacity s"
  "storage_path (update_record h f s) = storage_path s"
  "net_calls (update_record h f s) = net_calls s"
  "remote (update_record h f s) = remote s"
  "providers (update_record h f s) = providers s"
  "max_retries (update_record h f s) = max_retries s"
  "clock (update_record h f s) = clock s"
  by (simp_all add: update_record_def)

lemma usedSpace_update_record [simp]: "usedSpace (update_record h f s) = usedSpace s"
  by (simp add: usedSpace_def)

lemma sum_filter_le:
  "sum_list (map (\<lambda>kv. length (snd kv)) (filter P xs)) \<le> sum_list (map (\<lambda>kv. length (snd kv)) xs)"
  by (induction xs) auto

lemma evict_bounds:
  "usedSpace (evict h s) \<le> usedSpace s \<and> capacity (evict h s) = capacity s"
  by (simp add: evict_def) (simp add: usedSpace_def sum_filter_le)

lemma evictIfNeeded_fits: "usedSpace s + n \<le> capacity s \<Longrightarrow> evictIfNeeded n s = s"
  by (subst evictIfNeeded.simps) simp

lemma evictIfNeeded_stuck:
  "\<not> usedSpace s + n \<le> capacity s \<Longrightarrow> victim s = None \<Longrightarrow> evictIfNeeded n s = s"
  by (subst evictIfNeeded.simps) simp

lemma evictIfNeeded_step:
  "\<not> usedSpace s + n \<le> capacity s \<Longrightarrow> victim s = Some h \<Longrightarrow>
     evictIfNeeded n s = evictIfNeeded n (evict h s)"
  by (subst evictIfNeeded.simps) simp

lemma evictIfNeeded_bounds:
  "usedSpace (evictIfNeeded n s) \<le> usedSpace s \<and> capacity (evictIfNeeded n s) = capacity s"
proof (induction n s rule: evictIfNeeded.induct)
  case (1 n s)
  show ?case
  proof (cases "usedSpace s + n \<le> capacity s")
    case True
    then show ?thesis by (simp add: evictIfNeeded_fits)
  next
    case False
    show ?thesis
    proof (cases "victim s")
      case None
      then show ?thesis using False by (simp add: evictIfNeeded_stuck)
    next
      case (Some h)
      have "usedSpace (evictIfNeeded n (evict h s)) \<le> usedSpace (evict h s)"
        and "capacity (evictIfNeeded n (evict h s)) = capacity (evict h s)"
        using "1.IH" [OF False Some] by simp_all
      then show ?thesis
        using evict_bounds [of h s] by (simp add: evictIfNeeded_step [OF False Some])
    qed
  qed
qed

lemma evictIfNeeded_done:
  "usedSpace (evictIfNeeded n s) + n \<le> capacity s \<or> victim (evictIfNeeded n s) = None"
proof (induction n s rule: evictIfNeeded.induct)
  case (1 n s)
  show ?case
  proof (cases "usedSpace s + n \<le> capacity s")
    case True
    then show ?thesis by (simp add: evictIfNeeded_fits)
  next
    case False
    show ?thesis
    proof (cases "victim s")
      case None
      then show ?thesis using False by (simp add: evictIfNeeded_stuck)
    next
      case (Some h)
      then show ?thesis
        using "1.IH" [OF False Some] evict_bounds [of h s]
        by (simp add: evictIfNeeded_step [OF False Some])
    qed
  qed
qed

lemma put_bounds:
  assumes "usedSpace s \<le> capacity s"
  shows "usedSpace (snd (put h d s)) \<le> capacity (snd (put h d s))
       \<and> capacity (snd (put h d s)) = capacity s"
proof -
  let ?s1 = "evictIfNeeded (length d) s"
  have b: "usedSpace ?s1 \<le> usedSpace s" "capacity ?s1 = capacity s"
    using evictIfNeeded_bounds [of "length d" s] by simp_all
  have f: "sum_list (map (\<lambda>kv. length (snd kv)) (filter (\<lambda>kv. fst kv \<noteq> h) (cache ?s1)))
             \<le> usedSpace ?s1"
    by (simp add: usedSpace_def sum_filter_le)
  show ?thesis
    using assms b f by (auto simp: put_def Let_def usedSpace_def)
qed

lemma store_step_bounds:
  assumes "usedSpace s \<le> capacity s"
  shows "usedSpace (store_step x s) \<le> capacity (store_step x s)
   \<and> capacity (store_step x s) = capacity s"
proof (cases x)
  case (Put h d)
  then show ?thesis using put_bounds [OF assms, of h d] by simp
next
  case (EvictIfNeeded n)
  then show ?thesis using assms evictIfNeeded_bounds [of n s] by simp
qed


lemma fetch_first_all_fail:
  "\<forall>p \<in> set ps. \<not> reach p \<or> map_of (remote s) (p, h) = None \<Longrightarrow>
     fetch_first reach h ps s = (None, s\<lparr>net_calls := net_calls s @ map (\<lambda>p. Fetch p h) ps\<rparr>)"
proof (induction ps arbitrary: s)
  case Nil
  then show ?case by simp
next
  case (Cons p ps)
  let ?s1 = "s\<lparr>net_calls := net_calls s @ [Fetch p h]\<rparr>"
  have here: "(if reach p then map_of (remote s) (p, h) else None) = None"
    using Cons.prems by auto
  have rest: "\<forall>q \<in> set ps. \<not> reach q \<or> map_of (remote ?s1) (q, h) = None"
    using Cons.prems by simp
  show ?case
    using here Cons.IH [OF rest] by (simp add: Let_def)
qed

lemma demo_cloud_one_eq:
  "demo_cloud_one =
     \<lparr>capacity = 5, storage_path = ''./uploads'', providers = [1, 2, 3],
      max_retries = 1, cache = [(''h1'', ''abc'')],
      index =
        [(''h1'',
          \<lparr>fr_size = 3, providerStatus = [(3, failed), (2, stored), (1, failed)],
           cachedLocally = True, lastAccess = 0, createdAt = 0,
           chainRecordState = unsubmitted\<rparr>)],
      sync_queue = [''h1'', ''h1''], totalIncoming = 0, totalOutgoing = 3,
      clock = 1, remote = [((2, ''h1''), ''abc'')],
      net_calls = [Push 1 ''h1'', Push 1 ''h1'', Push 2 ''h1'', Push 3 ''h1'', Push 3 ''h1'']\<rparr>"
  by code_simp

lemma demo_cloud_two_eq:
  "demo_cloud_two =
     \<lparr>capacity = 5, storage_path = ''./uploads'', providers = [1, 2, 3],
      max_retries = 1, cache = [(''h2'', ''defg'')],
      index =
        [(''h2'',
          \<lparr>fr_size = 4, providerStatus = [(3, failed), (2, failed), (1, stored)],
           cachedLocally = True, lastAccess = 1, createdAt = 1,
           chainRecordState = unsubmitted\<rparr>),
         (''h1'',
          \<lparr>fr_size = 3, providerStatus = [(3, failed), (2, stored), (1, failed)],
           cachedLocally = False, lastAccess = 0, createdAt = 0,
           chainRecordState = unsubmitted\<rparr>)],
      sync_queue = [''h1'', ''h1'', ''h2'', ''h2''], totalIncoming = 0, totalOutgoing = 7,
      clock = 2, remote = [((1, ''h2''), ''defg''), ((2, ''h1''), ''abc'')],
      net_calls = [Push 1 ''h1'', Push 1 ''h1'', Push 2 ''h1'', Push 3 ''h1'', Push 3 ''h1'',
                   Push 1 ''h2'', Push 2 ''h2'', Push 2 ''h2'', Push 3 ''h2'', Push 3 ''h2'']\<rparr>"
  by code_simp

lemma download_not_found:
  assumes g: "get_cloud_manager stg env c = (Inr cm, c1)"
      and w: "cm_do env cm (WarmUp h) c1 = (Inr PNone, c2)"
  shows "download stg env req h c =
           (Inr \<lparr>resp_status = 404,
                 resp_body = Json (PDict [(''error'', PStr ''File not found'')]),
                 resp_mimetype = Some ''application/json'', resp_headers = []\<rparr>, c2)"
  using g w
  by (simp add: download_def bind_def Let_def ret_def make_response_def jsonify_def)

lemma download_raises:
  assumes g: "get_cloud_manager stg env c = (Inr cm, c1)"
      and w: "cm_do env cm (WarmUp h) c1 = (Inl e, c2)"
  shows "download stg env req h c = (Inl e, c2)"
  using g w by (simp add: download_def bind_def Let_def)

lemma demo_warm_get:
  "get_cloud_manager demo_settings (demo_env_warm reach s) (fresh_ctx []) =
     (Inr (), \<lparr>world = [], g_cloud_manager = Some (), g_coin = None,
               trace = [EvCloudManager (PStr ''./database/files.db'') (PStr ''./uploads'')
                          (PInt 20971520)]\<rparr>)"
  by (simp add: demo_env_warm_def run_defs)

subsection \<open>ContentStore\<close>

text \<open>
  Claim C8. After any sequence of \<open>put\<close> and \<open>evictIfNeeded\<close> calls on a store that is
  within its capacity (an empty store is), \<open>usedSpace()\<close> does not exceed \<open>capacity()\<close>,
  and the capacity does not change. \<open>put\<close> evicts before it writes: it writes only when
  the bytes fit after the eviction, and it fails, with \<open>CapacityExceeded\<close>, only when
  nothing evictable is left.
\<close>

theorem capacity_is_a_ceiling:
  assumes "usedSpace s \<le> capacity s"
  shows "usedSpace (run_store_ops ops s) \<le> capacity (run_store_ops ops s)
       \<and> capacity (run_store_ops ops s) = capacity s
       \<and> (\<forall>h d. fst (put h d s) = Inl CapacityExceeded \<or>
                  (fst (put h d s) = Inr (length d)
                   \<and> usedSpace (evictIfNeeded (length d) s) + length d \<le> capacity s))
       \<and> (\<forall>h d. fst (put h d s) = Inl CapacityExceeded \<longrightarrow>
                  victim (evictIfNeeded (length d) s) = None)"
proof -
  have run: "usedSpace (run_store_ops ops s) \<le> capacity (run_store_ops ops s)
       \<and> capacity (run_store_ops ops s) = capacity s"
    using assms
  proof (induction ops arbitrary: s)
    case Nil
    then show ?case by simp
  next
    case (Cons x xs)
    have "usedSpace (store_step x s) \<le> capacity (store_step x s)"
      and c: "capacity (store_step x s) = capacity s"
      using store_step_bounds [OF Cons.prems, of x] by simp_all
    then show ?case using Cons.IH [of "store_step x s"] by simp
  qed
  have p1: "fst (put h d s) = Inl CapacityExceeded \<or>
                  (fst (put h d s) = Inr (length d)
                   \<and> usedSpace (evictIfNeeded (length d) s) + length d \<le> capacity s)" for h d
    using evictIfNeeded_bounds [of "length d" s] by (auto simp: put_def Let_def)
  have p2: "fst (put h d s) = Inl CapacityExceeded \<longrightarrow>
                  victim (evictIfNeeded (length d) s) = None" for h d
    using evictIfNeeded_done [of "length d" s] evictIfNeeded_bounds [of "length d" s]
    by (auto simp: put_def Let_def split: if_splits)
  show ?thesis using run p1 p2 by blast
qed

theorem capacity_is_a_ceiling_witness:
  "usedSpace demo_cloud_one \<le> capacity demo_cloud_one
   \<and> usedSpace (run_store_ops [Put ''h2'' ''defg'', EvictIfNeeded 2] demo_cloud_one)
       \<le> capacity (run_store_ops [Put ''h2'' ''defg'', EvictIfNeeded 2] demo_cloud_one)
   \<and> cache (run_store_ops [Put ''h2'' ''defg''] demo_cloud_one) = [(''h2'', ''defg'')]
   \<and> fst (put ''h3'' ''uvwxyz'' demo_cloud_one) = Inl CapacityExceeded"
proof -
  have a: "usedSpace demo_cloud_one \<le> capacity demo_cloud_one"
    by (simp add: demo_cloud_one_eq usedSpace_def)
  have b: "cache (run_store_ops [Put ''h2'' ''defg''] demo_cloud_one) = [(''h2'', ''defg'')]"
    by code_simp
  have c: "fst (put ''h3'' ''uvwxyz'' demo_cloud_one) = Inl CapacityExceeded"
    by code_simp
  show ?thesis
    using capacity_is_a_ceiling [OF a, of "[Put ''h2'' ''defg'', EvictIfNeeded 2]"] a b c
    by simp
qed

subsection \<open>Upload, then warm-up\<close>



































subsection \<open>Warm-up of a hash that cannot be served\<close>

text \<open>
  Claim C6. For a hash with no record in the FileIndex, \<open>warmUp\<close> returns \<open>NotFound\<close>
  and leaves the state as it is, so no network call is recorded; the download route, whose
  manager answers \<^verbatim>\<open>warm_up\<close> with that outcome, responds 404 with the error
  \<^verbatim>\<open>File not found\<close>.
\<close>

theorem warm_up_unknown_hash:
  assumes nf: "find_record s h = None"
      and g: "get_cloud_manager stg env c = (Inr cm, c1)"
      and w: "cm_do env cm (WarmUp h) c1 = (warm_up_result (fst (warmUp reach h s)), c2)"
  shows "warmUp reach h s = (Inl NotFound, s)
       \<and> net_calls (snd (warmUp reach h s)) = net_calls s
       \<and> download stg env req h c =
           (Inr \<lparr>resp_status = 404,
                 resp_body = Json (PDict [(''error'', PStr ''File not found'')]),
                 resp_mimetype = Some ''application/json'', resp_headers = []\<rparr>, c2)"
proof -
  have a: "warmUp reach h s = (Inl NotFound, s)"
    using nf by (simp add: warmUp_def)
  then have "cm_do env cm (WarmUp h) c1 = (Inr PNone, c2)"
    using w by (simp add: warm_up_result_def)
  then show ?thesis
    using a download_not_found [OF g] by simp
qed

theorem warm_up_unknown_hash_witness:
  "find_record demo_cloud_one ''deadbeef'' = None
   \<and> warmUp (\<lambda>p. True) ''deadbeef'' demo_cloud_one = (Inl NotFound, demo_cloud_one)
   \<and> fst (download demo_settings (demo_env_warm (\<lambda>p. True) demo_cloud_one)
            (demo_get_request None) ''deadbeef'' (fresh_ctx []))
       = Inr \<lparr>resp_status = 404,
              resp_body = Json (PDict [(''error'', PStr ''File not found'')]),
              resp_mimetype = Some ''application/json'', resp_headers = []\<rparr>"
proof -
  let ?env = "demo_env_warm (\<lambda>p. True) demo_cloud_one"
  let ?c1 = "\<lparr>world = [] :: demo_world, g_cloud_manager = Some (), g_coin = None :: unit option,
               trace = [EvCloudManager (PStr ''./database/files.db'') (PStr ''./uploads'')
                          (PInt 20971520)]\<rparr>"
  have nf: "find_record demo_cloud_one ''deadbeef'' = None"
    by (simp add: demo_cloud_one_eq find_record_def)
  have w: "cm_do ?env () (WarmUp ''deadbeef'') ?c1
             = (warm_up_result (fst (warmUp (\<lambda>p. True) ''deadbeef'' demo_cloud_one)),
                ?c1\<lparr>trace := trace ?c1 @ [EvCm (WarmUp ''deadbeef'')]\<rparr>)"
    by (simp add: cm_do_def call_def demo_env_warm_def)
  show ?thesis
    using warm_up_unknown_hash [OF nf demo_warm_get w, of "demo_get_request None"] nf
    by simp
qed

text \<open>
  Claim C5. For a hash that has a record, is not cached, and whose fetch fails at every
  provider that holds it, \<open>warmUp\<close> tries each candidate once, in order, and returns
  \<open>FetchFailed\<close>, which is not \<open>NotFound\<close>. The download route, whose manager answers
  \<^verbatim>\<open>warm_up\<close> with that outcome, does not give the 404 response of an unknown hash: the
  error propagates.
\<close>

theorem fetch_failed_is_distinct:
  assumes r: "find_record s h = Some r"
      and miss: "\<not> cachedLocally r"
      and dead: "\<forall>p \<in> set (candidates r). \<not> reach p \<or> map_of (remote s) (p, h) = None"
      and g: "get_cloud_manager stg env c = (Inr cm, c1)"
      and w: "cm_do env cm (WarmUp h) c1 = (warm_up_result (fst (warmUp reach h s)), c2)"
  shows "fst (warmUp reach h s) = Inl FetchFailed
       \<and> fst (warmUp reach h s) \<noteq> Inl NotFound
       \<and> net_calls (snd (warmUp reach h s))
           = net_calls s @ map (\<lambda>p. Fetch p h) (candidates r)
       \<and> download stg env req h c = (Inl (Raised ''FetchFailed''), c2)
       \<and> fst (download stg env req h c)
           \<noteq> Inr \<lparr>resp_status = 404,
                   resp_body = Json (PDict [(''error'', PStr ''File not found'')]),
                   resp_mimetype = Some ''application/json'', resp_headers = []\<rparr>"
proof -
  have a: "warmUp reach h s
             = (Inl FetchFailed, s\<lparr>net_calls := net_calls s @ map (\<lambda>p. Fetch p h) (candidates r)\<rparr>)"
    using r miss fetch_first_all_fail [OF dead] by (simp add: warmUp_def)
  then have "cm_do env cm (WarmUp h) c1 = (Inl (Raised ''FetchFailed''), c2)"
    using w by (simp add: warm_up_result_def)
  then have "download stg env req h c = (Inl (Raised ''FetchFailed''), c2)"
    by (rule download_raises [OF g])
  then show ?thesis using a by simp
qed

theorem fetch_failed_is_distinct_witness:
  "fst (warmUp (\<lambda>p. False) ''h1'' demo_cloud_two) = Inl FetchFailed
   \<and> net_calls (snd (warmUp (\<lambda>p. False) ''h1'' demo_cloud_two))
       = net_calls demo_cloud_two @ [Fetch 2 ''h1'']
   \<and> fst (download demo_settings (demo_env_warm (\<lambda>p. False) demo_cloud_two)
            (demo_get_request None) ''h1'' (fresh_ctx []))
       = Inl (Raised ''FetchFailed'')"
proof -
  let ?env = "demo_env_warm (\<lambda>p. False) demo_cloud_two"
  let ?r = "\<lparr>fr_size = 3, providerStatus = [(3, failed), (2, stored), (1, failed)],
             cachedLocally = False, lastAccess = 0, createdAt = 0,
             chainRecordState = unsubmitted\<rparr>"
  let ?c1 = "\<lparr>world = [] :: demo_world, g_cloud_manager = Some (), g_coin = None :: unit option,
               trace = [EvCloudManager (PStr ''./database/files.db'') (PStr ''./uploads'')
                          (PInt 20971520)]\<rparr>"
  have r: "find_record demo_cloud_two ''h1'' = Some ?r"
    by (simp add: demo_cloud_two_eq find_record_def)
  have miss: "\<not> cachedLocally ?r" by simp
  have cand: "candidates ?r = [2]" by (simp add: candidates_def)
  have dead: "\<forall>p \<in> set (candidates ?r).
                \<not> (\<lambda>p. False) p \<or> map_of (remote demo_cloud_two) (p, ''h1'') = None"
    by simp
  have w: "cm_do ?env () (WarmUp ''h1'') ?c1
             = (warm_up_result (fst (warmUp (\<lambda>p. False) ''h1'' demo_cloud_two)),
                ?c1\<lparr>trace := trace ?c1 @ [EvCm (WarmUp ''h1'')]\<rparr>)"
    by (simp add: cm_do_def call_def demo_env_warm_def)
  show ?thesis
    using fetch_failed_is_distinct [OF r miss dead demo_warm_get w, of "demo_get_request None"]
      cand
    by simp
qed

end
